theory Spec2Isabelle
  imports Main "HOL-Library.Word"
begin

section \<open>Data model of \<open>agentstorage.TorrentArchive\<close>\<close>

text \<open>
  The development follows \<open>lib/torrent/storage/agentstorage/torrent_archive.go\<close>.
  Go's \<open>[]byte\<close> is a list of 8-bit words, \<open>int\<close> and \<open>int64\<close> values are
  carried as \<open>int\<close> (the file does no arithmetic on them apart from the loop counter,
  which stays below the retry count and so never wraps).
\<close>

type_synonym bytes = "8 word list"

text \<open>
  Go \<open>error\<close> values. \<open>os_ErrNotExist\<close> is \<open>os.ErrNotExist\<close>; \<open>syscall_Errno n\<close> is
  the system error number \<open>n\<close> (\<open>ENOENT\<close> is 2); \<open>PathError\<close>, \<open>LinkError\<close> and
  \<open>SyscallError\<close> are \<open>*os.PathError\<close>, \<open>*os.LinkError\<close> and \<open>*os.SyscallError\<close>
  around another error; \<open>metainfoclient_ErrNotFound\<close> and
  \<open>storage_ErrNotFound\<close> are the two sentinel values the file compares against and
  returns; \<open>Other\<close> is any further error of a collaborator, by its message.
  \<open>Errorf ctx e\<close> is the value of \<open>fmt.Errorf(ctx + ": %s", e)\<close>: a new error that only
  carries the context and what \<open>e\<close> printed, where the operand \<open>e\<close> may be the nil
  error (\<open>None\<close>).
\<close>

datatype error =
    os_ErrNotExist
  | syscall_Errno nat
  | PathError string error
  | LinkError string error
  | SyscallError string error
  | metainfoclient_ErrNotFound
  | storage_ErrNotFound
  | Other string
  | Errorf string "error option"

text \<open>
  \<open>os.IsNotExist\<close> as the library has it: \<open>underlyingError\<close> takes the error out of one
  \<open>PathError\<close>, \<open>LinkError\<close> or \<open>SyscallError\<close>, and the result is compared with
  \<open>syscall.ENOENT\<close> and \<open>os.ErrNotExist\<close>. An error made by \<open>fmt.Errorf\<close> with \<open>%s\<close> is
  never recognised.
\<close>

definition syscall_ENOENT :: error where
  "syscall_ENOENT = syscall_Errno 2"

fun underlyingError :: "error \<Rightarrow> error" where
  "underlyingError (PathError p e) = e"
| "underlyingError (LinkError p e) = e"
| "underlyingError (SyscallError p e) = e"
| "underlyingError e = e"

definition os_IsNotExist :: "error \<Rightarrow> bool" where
  "os_IsNotExist err =
     (underlyingError err = syscall_ENOENT \<or> underlyingError err = os_ErrNotExist)"

text \<open>
  \<open>core.MetaInfo\<close>, of which the file reads \<open>mi.Name()\<close> and \<open>mi.Info.Length\<close>;
  \<open>Fields\<close> stands for everything else it holds, which the file never looks at.
\<close>

record MetaInfo =
  Name :: string
  Length :: int
  Fields :: bytes

record TorrentInfo =
  metainfo :: MetaInfo
  bitfield :: "bool list"

definition NewTorrentInfo :: "MetaInfo \<Rightarrow> bool list \<Rightarrow> TorrentInfo" where
  "NewTorrentInfo mi b = \<lparr>metainfo = mi, bitfield = b\<rparr>"

record Config =
  UnavailableMetaInfoRetries :: int
  UnavailableMetaInfoRetrySleep :: int

text \<open>The two metadata slot kinds the file names: \<open>store.NewTorrentMeta()\<close> and
  \<open>store.NewPieceStatus()\<close>.\<close>

datatype MetadataType = TorrentMeta | PieceStatus

text \<open>
  \<open>store.FileStore\<close> as this file uses it, over a store state \<open>'s\<close>. The four
  operations are those reached through \<open>a.fs\<close>; \<open>GetMetadata\<close> and \<open>GetOrSetMetadata\<close>
  are the ones of the view \<open>a.fs.States().Download().Cache()\<close>. An operation that can
  change the store returns the new state; an \<open>error option\<close> result is Go's \<open>error\<close>,
  \<open>None\<close> being nil.
\<close>

record 's FileStore =
  GetMetadata :: "'s \<Rightarrow> string \<Rightarrow> MetadataType \<Rightarrow> error + bytes"
  GetOrSetMetadata :: "'s \<Rightarrow> string \<Rightarrow> MetadataType \<Rightarrow> bytes \<Rightarrow> (error + bytes) \<times> 's"
  EnsureDownloadOrCacheFilePresent :: "'s \<Rightarrow> string \<Rightarrow> int \<Rightarrow> error option \<times> 's"
  DeleteDownloadOrCacheFile :: "'s \<Rightarrow> string \<Rightarrow> error option \<times> 's"

text \<open>
  The receiver. \<open>config\<close>, \<open>fs\<close> and \<open>metaInfoClient\<close> are the struct's fields
  (\<open>stats\<close> only times the download and is left out). \<open>metaInfoClient\<close> is the
  behaviour of \<open>metainfoclient.Client.Download\<close>: its first argument is the number of
  \<open>Download\<close> calls made before, so the remote side may answer each attempt differently.
  The remaining fields are the functions of other files that the methods call:
  \<open>core.DeserializeMetaInfo\<close>, \<open>(*core.MetaInfo).Serialize\<close>, \<open>NewTorrent\<close> and
  \<open>newBitfieldFromPieceStatusBytes\<close> (which returns a bitfield and no error).
  \<open>NewTorrent\<close> is given the store and the metainfo and returns a torrent or an error;
  what it does to the store itself lies outside this file and is not part of the model.
\<close>

record ('s, 't) TorrentArchive =
  config :: Config
  fs :: "'s FileStore"
  metaInfoClient :: "nat \<Rightarrow> string \<Rightarrow> string \<Rightarrow> error + MetaInfo"
  DeserializeMetaInfo :: "bytes \<Rightarrow> error + MetaInfo"
  Serialize :: "MetaInfo \<Rightarrow> error + bytes"
  NewTorrent :: "'s \<Rightarrow> MetaInfo \<Rightarrow> error + 't"
  newBitfieldFromPieceStatusBytes :: "string \<Rightarrow> bytes \<Rightarrow> bool list"

text \<open>Modelled from the spec: \<open>Config.applyDefaults\<close> is missing (another file of the
  package has it); defaults are applied when a field is unset, which for a Go integer is
  zero, and the documented defaults are some positive retry count and a non-zero delay.
  The default values are the argument \<open>defaults\<close>.\<close>

definition applyDefaults :: "Config \<Rightarrow> Config \<Rightarrow> Config" where
  "applyDefaults defaults c =
     \<lparr>UnavailableMetaInfoRetries =
        (if UnavailableMetaInfoRetries c = 0 then UnavailableMetaInfoRetries defaults
         else UnavailableMetaInfoRetries c),
      UnavailableMetaInfoRetrySleep =
        (if UnavailableMetaInfoRetrySleep c = 0 then UnavailableMetaInfoRetrySleep defaults
         else UnavailableMetaInfoRetrySleep c)\<rparr>"

text \<open>
  \<open>NewTorrentArchive\<close> (lines 26 to 39) stores the configuration with the defaults
  applied; \<open>DefaultTorrentArchive\<close> (lines 42 to 46) passes the empty \<open>Config{}\<close>. The
  last four arguments are the functions of other files, which in Go are not arguments.
\<close>

definition NewTorrentArchive ::
  "Config \<Rightarrow> Config \<Rightarrow> 's FileStore \<Rightarrow> (nat \<Rightarrow> string \<Rightarrow> string \<Rightarrow> error + MetaInfo)
     \<Rightarrow> (bytes \<Rightarrow> error + MetaInfo) \<Rightarrow> (MetaInfo \<Rightarrow> error + bytes)
     \<Rightarrow> ('s \<Rightarrow> MetaInfo \<Rightarrow> error + 't) \<Rightarrow> (string \<Rightarrow> bytes \<Rightarrow> bool list)
     \<Rightarrow> ('s, 't) TorrentArchive" where
  "NewTorrentArchive defaults c store mic deserialize serialize newTorrent newBitfield =
     \<lparr>config = applyDefaults defaults c,
      fs = store,
      metaInfoClient = mic,
      DeserializeMetaInfo = deserialize,
      Serialize = serialize,
      NewTorrent = newTorrent,
      newBitfieldFromPieceStatusBytes = newBitfield\<rparr>"

definition DefaultTorrentArchive ::
  "Config \<Rightarrow> 's FileStore \<Rightarrow> (nat \<Rightarrow> string \<Rightarrow> string \<Rightarrow> error + MetaInfo)
     \<Rightarrow> (bytes \<Rightarrow> error + MetaInfo) \<Rightarrow> (MetaInfo \<Rightarrow> error + bytes)
     \<Rightarrow> ('s \<Rightarrow> MetaInfo \<Rightarrow> error + 't) \<Rightarrow> (string \<Rightarrow> bytes \<Rightarrow> bool list)
     \<Rightarrow> ('s, 't) TorrentArchive" where
  "DefaultTorrentArchive defaults store mic deserialize serialize newTorrent newBitfield =
     NewTorrentArchive defaults
       \<lparr>UnavailableMetaInfoRetries = 0, UnavailableMetaInfoRetrySleep = 0\<rparr>
       store mic deserialize serialize newTorrent newBitfield"

text \<open>Every call that leaves the file is logged, in order.\<close>

datatype event =
    EvGetMetadata string MetadataType
  | EvGetOrSetMetadata string MetadataType bytes
  | EvEnsureDownloadOrCacheFilePresent string int
  | EvDeleteDownloadOrCacheFile string
  | EvDownload string string
  | EvSleep int
  | EvNewTorrent MetaInfo

record 's world =
  fsState :: 's
  downloads :: nat
  trace :: "event list"

section \<open>Calls to the collaborators\<close>

definition call_GetMetadata ::
  "('s, 't) TorrentArchive \<Rightarrow> string \<Rightarrow> MetadataType \<Rightarrow> 's world \<Rightarrow> (error + bytes) \<times> 's world" where
  "call_GetMetadata a name k w =
     (GetMetadata (fs a) (fsState w) name k, w\<lparr>trace := trace w @ [EvGetMetadata name k]\<rparr>)"

definition call_GetOrSetMetadata ::
  "('s, 't) TorrentArchive \<Rightarrow> string \<Rightarrow> MetadataType \<Rightarrow> bytes \<Rightarrow> 's world \<Rightarrow> (error + bytes) \<times> 's world" where
  "call_GetOrSetMetadata a name k raw w =
     (case GetOrSetMetadata (fs a) (fsState w) name k raw of
        (r, s') \<Rightarrow> (r, w\<lparr>fsState := s', trace := trace w @ [EvGetOrSetMetadata name k raw]\<rparr>))"

definition call_EnsureDownloadOrCacheFilePresent ::
  "('s, 't) TorrentArchive \<Rightarrow> string \<Rightarrow> int \<Rightarrow> 's world \<Rightarrow> error option \<times> 's world" where
  "call_EnsureDownloadOrCacheFilePresent a name len w =
     (case EnsureDownloadOrCacheFilePresent (fs a) (fsState w) name len of
        (r, s') \<Rightarrow> (r, w\<lparr>fsState := s', trace := trace w @ [EvEnsureDownloadOrCacheFilePresent name len]\<rparr>))"

definition call_DeleteDownloadOrCacheFile ::
  "('s, 't) TorrentArchive \<Rightarrow> string \<Rightarrow> 's world \<Rightarrow> error option \<times> 's world" where
  "call_DeleteDownloadOrCacheFile a name w =
     (case DeleteDownloadOrCacheFile (fs a) (fsState w) name of
        (r, s') \<Rightarrow> (r, w\<lparr>fsState := s', trace := trace w @ [EvDeleteDownloadOrCacheFile name]\<rparr>))"

definition call_Download ::
  "('s, 't) TorrentArchive \<Rightarrow> string \<Rightarrow> string \<Rightarrow> 's world \<Rightarrow> (error + MetaInfo) \<times> 's world" where
  "call_Download a namespace name w =
     (metaInfoClient a (downloads w) namespace name,
      w\<lparr>downloads := Suc (downloads w), trace := trace w @ [EvDownload namespace name]\<rparr>)"

definition time_Sleep :: "int \<Rightarrow> 's world \<Rightarrow> 's world" where
  "time_Sleep d w = w\<lparr>trace := trace w @ [EvSleep d]\<rparr>"

definition call_NewTorrent ::
  "('s, 't) TorrentArchive \<Rightarrow> MetaInfo \<Rightarrow> 's world \<Rightarrow> (error + 't) \<times> 's world" where
  "call_NewTorrent a mi w =
     (NewTorrent a (fsState w) mi, w\<lparr>trace := trace w @ [EvNewTorrent mi]\<rparr>)"

section \<open>The methods\<close>

subsection \<open>\<open>downloadMetaInfo\<close>\<close>

text \<open>
  The loop \<open>for i := 0; i < a.config.UnavailableMetaInfoRetries; i++\<close>, with the loop
  counter \<open>i\<close> and the named result \<open>err\<close> (nil before the first attempt) as arguments.
\<close>

function downloadMetaInfo_loop ::
  "('s, 't) TorrentArchive \<Rightarrow> string \<Rightarrow> string \<Rightarrow> int \<Rightarrow> error option \<Rightarrow> 's world
     \<Rightarrow> (error + MetaInfo) \<times> 's world" where
  "downloadMetaInfo_loop a namespace name i err w =
     (if i < UnavailableMetaInfoRetries (config a) then
        (case call_Download a namespace name
                (if i > 0 then time_Sleep (UnavailableMetaInfoRetrySleep (config a)) w else w) of
           (Inl e, w') \<Rightarrow>
              if e = metainfoclient_ErrNotFound then (Inl storage_ErrNotFound, w')
              else downloadMetaInfo_loop a namespace name (i + 1) (Some e) w'
         | (Inr mi, w') \<Rightarrow> (Inr mi, w'))
      else (Inl (Errorf ''download metainfo'' err), w))"
  by pat_completeness auto
termination
  by (relation "measure (\<lambda>(a, namespace, name, i, err, w). nat (UnavailableMetaInfoRetries (config a) - i))") auto

definition downloadMetaInfo ::
  "('s, 't) TorrentArchive \<Rightarrow> string \<Rightarrow> string \<Rightarrow> 's world \<Rightarrow> (error + MetaInfo) \<times> 's world" where
  "downloadMetaInfo a namespace name w = downloadMetaInfo_loop a namespace name 0 None w"

subsection \<open>\<open>Stat\<close>\<close>

definition Stat ::
  "('s, 't) TorrentArchive \<Rightarrow> string \<Rightarrow> string \<Rightarrow> 's world \<Rightarrow> (error + TorrentInfo) \<times> 's world" where
  "Stat a namespace name w =
     (case call_GetMetadata a name TorrentMeta w of
        (Inl err, w1) \<Rightarrow> (Inl err, w1)
      | (Inr raw, w1) \<Rightarrow>
          (case DeserializeMetaInfo a raw of
             Inl err \<Rightarrow> (Inl (Errorf ''deserialize metainfo'' (Some err)), w1)
           | Inr mi \<Rightarrow>
               (case call_GetMetadata a name PieceStatus w1 of
                  (Inl err, w2) \<Rightarrow> (Inl err, w2)
                | (Inr raw', w2) \<Rightarrow>
                    (Inr (NewTorrentInfo mi (newBitfieldFromPieceStatusBytes a name raw')), w2))))"

subsection \<open>\<open>CreateTorrent\<close>\<close>

text \<open>
  The body of the branch \<open>if os.IsNotExist(err)\<close> (lines 96 to 118): it either returns
  from \<open>CreateTorrent\<close> with an error (\<open>Inl\<close>) or leaves the new value of \<open>miRaw\<close>.
\<close>

definition CreateTorrent_download ::
  "('s, 't) TorrentArchive \<Rightarrow> string \<Rightarrow> string \<Rightarrow> 's world \<Rightarrow> (error + bytes) \<times> 's world" where
  "CreateTorrent_download a namespace name w =
     (case downloadMetaInfo a namespace name w of
        (Inl err, w1) \<Rightarrow> (Inl err, w1)
      | (Inr mi, w1) \<Rightarrow>
          (case call_EnsureDownloadOrCacheFilePresent a (Name mi) (Length mi) w1 of
             (Some err, w2) \<Rightarrow> (Inl (Errorf ''ensure download/cache file present'' (Some err)), w2)
           | (None, w2) \<Rightarrow>
               (case Serialize a mi of
                  Inl err \<Rightarrow> (Inl (Errorf ''serialize downloaded metainfo'' (Some err)), w2)
                | Inr miRaw \<Rightarrow>
                    (case call_GetOrSetMetadata a name TorrentMeta miRaw w2 of
                       (Inl err, w3) \<Rightarrow> (Inl (Errorf ''get or set metainfo'' (Some err)), w3)
                     | (Inr miRaw', w3) \<Rightarrow> (Inr miRaw', w3)))))"

definition CreateTorrent ::
  "('s, 't) TorrentArchive \<Rightarrow> string \<Rightarrow> string \<Rightarrow> 's world \<Rightarrow> (error + 't) \<times> 's world" where
  "CreateTorrent a namespace name w =
     (case call_GetMetadata a name TorrentMeta w of
        (r, w0) \<Rightarrow>
          (case (case r of
                   Inl err \<Rightarrow>
                     if os_IsNotExist err then CreateTorrent_download a namespace name w0
                     else (Inl (Errorf ''get metainfo'' (Some err)), w0)
                 | Inr miRaw \<Rightarrow> (Inr miRaw, w0)) of
             (Inl err, w4) \<Rightarrow> (Inl err, w4)
           | (Inr miRaw, w4) \<Rightarrow>
               (case DeserializeMetaInfo a miRaw of
                  Inl err \<Rightarrow> (Inl (Errorf ''parse metainfo'' (Some err)), w4)
                | Inr mi \<Rightarrow>
                    (case call_NewTorrent a mi w4 of
                       (Inl err, w5) \<Rightarrow> (Inl (Errorf ''initialize torrent'' (Some err)), w5)
                     | (Inr t, w5) \<Rightarrow> (Inr t, w5)))))"

subsection \<open>\<open>GetTorrent\<close>\<close>

definition GetTorrent ::
  "('s, 't) TorrentArchive \<Rightarrow> string \<Rightarrow> string \<Rightarrow> 's world \<Rightarrow> (error + 't) \<times> 's world" where
  "GetTorrent a namespace name w =
     (case call_GetMetadata a name TorrentMeta w of
        (Inl err, w0) \<Rightarrow> (Inl (Errorf ''get metainfo'' (Some err)), w0)
      | (Inr miRaw, w0) \<Rightarrow>
          (case DeserializeMetaInfo a miRaw of
             Inl err \<Rightarrow> (Inl (Errorf ''parse metainfo'' (Some err)), w0)
           | Inr mi \<Rightarrow>
               (case call_NewTorrent a mi w0 of
                  (Inl err, w1) \<Rightarrow> (Inl (Errorf ''initialize torrent'' (Some err)), w1)
                | (Inr t, w1) \<Rightarrow> (Inr t, w1))))"

subsection \<open>\<open>DeleteTorrent\<close>\<close>

definition DeleteTorrent ::
  "('s, 't) TorrentArchive \<Rightarrow> string \<Rightarrow> 's world \<Rightarrow> error option \<times> 's world" where
  "DeleteTorrent a name w =
     (case call_DeleteDownloadOrCacheFile a name w of
        (Some err, w') \<Rightarrow> if \<not> os_IsNotExist err then (Some err, w') else (None, w')
      | (None, w') \<Rightarrow> (None, w'))"

section \<open>The file store of the specification\<close>

text \<open>
  \<open>lib/store\<close> is another package. Where a property depends on what the store does, it
  is stated for the store that the specification describes: metadata slots keyed by name
  and slot kind, and files with an allocated length.
\<close>

record LocalStore =
  metadata :: "string \<times> MetadataType \<rightharpoonup> bytes"
  files :: "string \<rightharpoonup> int"

text \<open>Modelled from the spec: \<open>lib/store\<close>'s read of a metadata slot is missing;
  \<open>read(name, slotKind)\<close> gives the bytes of the slot or NotExist.\<close>

definition spec_GetMetadata :: "LocalStore \<Rightarrow> string \<Rightarrow> MetadataType \<Rightarrow> error + bytes" where
  "spec_GetMetadata s name k =
     (case metadata s (name, k) of None \<Rightarrow> Inl os_ErrNotExist | Some raw \<Rightarrow> Inr raw)"

text \<open>Modelled from the spec: \<open>lib/store\<close>'s get-or-set is missing; get-or-create is an
  atomic write that inserts the bytes only if the slot is absent and always returns the
  bytes now in effect.\<close>

definition spec_GetOrSetMetadata ::
  "LocalStore \<Rightarrow> string \<Rightarrow> MetadataType \<Rightarrow> bytes \<Rightarrow> (error + bytes) \<times> LocalStore" where
  "spec_GetOrSetMetadata s name k raw =
     (case metadata s (name, k) of
        None \<Rightarrow> (Inr raw, s\<lparr>metadata := (metadata s)((name, k) \<mapsto> raw)\<rparr>)
      | Some committed \<Rightarrow> (Inr committed, s))"

text \<open>Modelled from the spec: \<open>lib/store\<close>'s ensure-present is missing; it is an
  idempotent operation that allocates a file of the given length if it does not already
  exist.\<close>

definition spec_EnsureDownloadOrCacheFilePresent ::
  "LocalStore \<Rightarrow> string \<Rightarrow> int \<Rightarrow> error option \<times> LocalStore" where
  "spec_EnsureDownloadOrCacheFilePresent s name len =
     (case files s name of
        None \<Rightarrow> (None, s\<lparr>files := (files s)(name \<mapsto> len)\<rparr>)
      | Some l \<Rightarrow> (None, s))"

text \<open>Modelled from the spec: \<open>lib/store\<close>'s delete is missing; \<open>deleteFile(name)\<close>
  removes the backing file and reports NotExist distinctly when there is none. The
  specification leaves the metadata slots to the store; they are kept here.\<close>

definition spec_DeleteDownloadOrCacheFile :: "LocalStore \<Rightarrow> string \<Rightarrow> error option \<times> LocalStore" where
  "spec_DeleteDownloadOrCacheFile s name =
     (case files s name of
        None \<Rightarrow> (Some os_ErrNotExist, s)
      | Some l \<Rightarrow> (None, s\<lparr>files := (files s)(name := None)\<rparr>))"

definition spec_FileStore :: "LocalStore FileStore" where
  "spec_FileStore =
     \<lparr>GetMetadata = spec_GetMetadata,
      GetOrSetMetadata = spec_GetOrSetMetadata,
      EnsureDownloadOrCacheFilePresent = spec_EnsureDownloadOrCacheFilePresent,
      DeleteDownloadOrCacheFile = spec_DeleteDownloadOrCacheFile\<rparr>"

text \<open>The callers that reach the commit step, one after the other (the write is atomic):
  each attempts its own bytes and gets back the bytes in effect.\<close>

fun commits :: "LocalStore \<Rightarrow> string \<Rightarrow> bytes list \<Rightarrow> (error + bytes) list" where
  "commits s name [] = []"
| "commits s name (raw # raws) =
     (case spec_GetOrSetMetadata s name TorrentMeta raw of
        (r, s') \<Rightarrow> r # commits s' name raws)"

section \<open>In-memory collaborators\<close>

text \<open>Small stand-ins for the remote client, the codec, the torrent constructor and the
  bitfield decoder, used to run the methods on concrete inputs.\<close>

definition mi_abc :: MetaInfo where
  "mi_abc = \<lparr>Name = ''abc'', Length = 1024, Fields = [7]\<rparr>"

definition mi_abc' :: MetaInfo where
  "mi_abc' = \<lparr>Name = ''abc'', Length = 1024, Fields = [8]\<rparr>"

text \<open>A metainfo that \<open>fake_Serialize\<close> refuses, and one with a negative length, which
  \<open>fake_NewTorrent\<close> refuses.\<close>

definition mi_xyz :: MetaInfo where
  "mi_xyz = \<lparr>Name = ''xyz'', Length = 7, Fields = []\<rparr>"

definition mi_negative :: MetaInfo where
  "mi_negative = \<lparr>Name = ''abc'', Length = - 1, Fields = []\<rparr>"

definition fake_Serialize :: "MetaInfo \<Rightarrow> error + bytes" where
  "fake_Serialize mi =
     (if mi = mi_abc then Inr [1] else if mi = mi_abc' then Inr [2]
      else Inl (Other ''cannot serialize''))"

definition fake_DeserializeMetaInfo :: "bytes \<Rightarrow> error + MetaInfo" where
  "fake_DeserializeMetaInfo raw =
     (if raw = [1] then Inr mi_abc else if raw = [2] then Inr mi_abc'
      else if raw = [3] then Inr mi_negative
      else Inl (Other ''bad metainfo''))"

definition fake_NewTorrent :: "'s \<Rightarrow> MetaInfo \<Rightarrow> error + MetaInfo" where
  "fake_NewTorrent s mi = (if Length mi < 0 then Inl (Other ''negative length'') else Inr mi)"

definition fake_newBitfield :: "string \<Rightarrow> bytes \<Rightarrow> bool list" where
  "fake_newBitfield name raw = map (\<lambda>b. b = 1) raw"

definition client_serving :: "MetaInfo \<Rightarrow> nat \<Rightarrow> string \<Rightarrow> string \<Rightarrow> error + MetaInfo" where
  "client_serving mi n namespace name = Inr mi"

definition client_unavailable :: "nat \<Rightarrow> string \<Rightarrow> string \<Rightarrow> error + MetaInfo" where
  "client_unavailable n namespace name =
     Inl (if n < 2 then Other ''connection refused'' else Other ''timeout'')"

definition client_absent :: "nat \<Rightarrow> string \<Rightarrow> string \<Rightarrow> error + MetaInfo" where
  "client_absent n namespace name = Inl metainfoclient_ErrNotFound"

definition fake_archive ::
  "'s FileStore \<Rightarrow> int \<Rightarrow> (nat \<Rightarrow> string \<Rightarrow> string \<Rightarrow> error + MetaInfo)
     \<Rightarrow> ('s, MetaInfo) TorrentArchive" where
  "fake_archive store K client =
     \<lparr>config = \<lparr>UnavailableMetaInfoRetries = K, UnavailableMetaInfoRetrySleep = 5\<rparr>,
      fs = store,
      metaInfoClient = client,
      DeserializeMetaInfo = fake_DeserializeMetaInfo,
      Serialize = fake_Serialize,
      NewTorrent = fake_NewTorrent,
      newBitfieldFromPieceStatusBytes = fake_newBitfield\<rparr>"

definition empty_store :: LocalStore where
  "empty_store = \<lparr>metadata = Map.empty, files = Map.empty\<rparr>"

definition world0 :: "'s \<Rightarrow> 's world" where
  "world0 s = \<lparr>fsState = s, downloads = 0, trace = []\<rparr>"

text \<open>A store whose every operation fails with the given error.\<close>

definition failing_FileStore :: "error \<Rightarrow> 's FileStore" where
  "failing_FileStore e =
     \<lparr>GetMetadata = (\<lambda>s name k. Inl e),
      GetOrSetMetadata = (\<lambda>s name k raw. (Inl e, s)),
      EnsureDownloadOrCacheFilePresent = (\<lambda>s name len. (Some e, s)),
      DeleteDownloadOrCacheFile = (\<lambda>s name. (Some e, s))\<rparr>"

text \<open>The store of the specification, except that allocating a file, or committing
  metadata, fails with the given error.\<close>

definition full_FileStore :: "error \<Rightarrow> LocalStore FileStore" where
  "full_FileStore e =
     spec_FileStore\<lparr>EnsureDownloadOrCacheFilePresent := (\<lambda>s name len. (Some e, s))\<rparr>"

definition readonly_FileStore :: "error \<Rightarrow> LocalStore FileStore" where
  "readonly_FileStore e =
     spec_FileStore\<lparr>GetOrSetMetadata := (\<lambda>s name k raw. (Inl e, s))\<rparr>"

text \<open>The store of the specification as seen by a caller that loses the race: between
  its read and its commit another caller commits \<open>other\<close> for the same slot.\<close>

definition racing_FileStore :: "bytes \<Rightarrow> LocalStore FileStore" where
  "racing_FileStore other =
     spec_FileStore\<lparr>GetOrSetMetadata :=
       (\<lambda>s name k raw. spec_GetOrSetMetadata (snd (spec_GetOrSetMetadata s name k other)) name k raw)\<rparr>"

text \<open>A store that holds a 5-byte file \<open>abc\<close> and no metadata for it.\<close>

definition store_with_file :: LocalStore where
  "store_with_file = \<lparr>metadata = Map.empty, files = [''abc'' \<mapsto> 5]\<rparr>"

text \<open>A store in which another caller has already allocated the 1024 bytes of \<open>abc\<close> and
  not yet committed its metainfo.\<close>

definition store_allocated :: LocalStore where
  "store_allocated = \<lparr>metadata = Map.empty, files = [''abc'' \<mapsto> 1024]\<rparr>"

text \<open>A store that holds committed metainfo for \<open>abc\<close> and a piece-status slot whose
  second byte is no status \<open>fake_newBitfield\<close> knows.\<close>

definition store_with_slots :: LocalStore where
  "store_with_slots =
     \<lparr>metadata = [(''abc'', TorrentMeta) \<mapsto> [1], (''abc'', PieceStatus) \<mapsto> [1, 255]],
      files = [''abc'' \<mapsto> 1024]\<rparr>"

section \<open>What \<open>os.IsNotExist\<close> recognises\<close>

lemma os_IsNotExist_simps [simp]:
  "os_IsNotExist os_ErrNotExist"
  "os_IsNotExist (syscall_Errno n) = (n = 2)"
  "os_IsNotExist (PathError p e) = (e = syscall_ENOENT \<or> e = os_ErrNotExist)"
  "os_IsNotExist (LinkError p e) = (e = syscall_ENOENT \<or> e = os_ErrNotExist)"
  "os_IsNotExist (SyscallError p e) = (e = syscall_ENOENT \<or> e = os_ErrNotExist)"
  "\<not> os_IsNotExist metainfoclient_ErrNotFound"
  "\<not> os_IsNotExist storage_ErrNotFound"
  "\<not> os_IsNotExist (Other m)"
  "\<not> os_IsNotExist (Errorf ctx u)"
  by (simp_all add: os_IsNotExist_def syscall_ENOENT_def)

section \<open>The retry loop\<close>

lemma downloadMetaInfo_loop_exhausted:
  "\<not> i < UnavailableMetaInfoRetries (config a) \<Longrightarrow>
   downloadMetaInfo_loop a namespace name i err w = (Inl (Errorf ''download metainfo'' err), w)"
  by (subst downloadMetaInfo_loop.simps) simp

text \<open>From iteration \<open>i\<close> on, against a source whose every answer is a transient error:
  the attempts left are all made, each but the very first after a sleep.\<close>

lemma downloadMetaInfo_loop_transient:
  "\<forall>n. \<exists>e. metaInfoClient a n namespace name = Inl e \<and> e \<noteq> metainfoclient_ErrNotFound \<Longrightarrow>
    i < UnavailableMetaInfoRetries (config a) \<Longrightarrow> 0 \<le> i \<Longrightarrow>
    downloadMetaInfo_loop a namespace name i err w =
      (Inl (Errorf ''download metainfo''
         (Some (projl (metaInfoClient a
            (downloads w + nat (UnavailableMetaInfoRetries (config a) - i) - 1) namespace name)))),
       w\<lparr>downloads := downloads w + nat (UnavailableMetaInfoRetries (config a) - i),
         trace := trace w @ (if i > 0 then [EvSleep (UnavailableMetaInfoRetrySleep (config a))] else [])
            @ EvDownload namespace name
            # concat (replicate (nat (UnavailableMetaInfoRetries (config a) - i) - 1)
                 [EvSleep (UnavailableMetaInfoRetrySleep (config a)), EvDownload namespace name])\<rparr>)"
proof (induction a namespace name i err w rule: downloadMetaInfo_loop.induct)
  case (1 a namespace name i err w)
  let ?K = "UnavailableMetaInfoRetries (config a)"
  let ?d = "UnavailableMetaInfoRetrySleep (config a)"
  let ?w1 = "if i > 0 then time_Sleep ?d w else w"
  obtain e where e: "metaInfoClient a (downloads w) namespace name = Inl e"
    "e \<noteq> metainfoclient_ErrNotFound"
    using "1.prems"(1) by blast
  have dl: "downloads ?w1 = downloads w" by (simp add: time_Sleep_def)
  obtain w' where cd: "call_Download a namespace name ?w1 = (Inl e, w')"
    and w': "w' = ?w1\<lparr>downloads := Suc (downloads w), trace := trace ?w1 @ [EvDownload namespace name]\<rparr>"
    using e dl by (simp add: call_Download_def)
  have step: "downloadMetaInfo_loop a namespace name i err w =
      downloadMetaInfo_loop a namespace name (i + 1) (Some e) w'"
    using "1.prems"(2) cd e(2) by (subst downloadMetaInfo_loop.simps) simp
  show ?case
  proof (cases "i + 1 < ?K")
    case True
    have n: "nat (?K - i) = Suc (nat (?K - (i + 1)))" using True by simp
    obtain m where m: "nat (?K - (i + 1)) = Suc m"
      using True by (cases "nat (?K - (i + 1))") auto
    have "0 \<le> i + 1" using "1.prems"(3) by simp
    note IH = "1.IH"[OF "1.prems"(2) cd[symmetric] refl e(2) "1.prems"(1) True this]
    show ?thesis
      unfolding step IH using m n True "1.prems"(3)
      by (simp add: w' time_Sleep_def)
  next
    case False
    then have K: "?K = i + 1" using "1.prems"(2) by simp
    show ?thesis unfolding step using False e
      by (simp add: downloadMetaInfo_loop_exhausted w' K time_Sleep_def)
  qed
qed

text \<open>The loop only ever appends to the log, never lowers the download counter and
  leaves the store alone.\<close>

lemma downloadMetaInfo_loop_grows:
  "downloads w \<le> downloads (snd (downloadMetaInfo_loop a namespace name i err w)) \<and>
   (\<exists>evs. trace (snd (downloadMetaInfo_loop a namespace name i err w)) = trace w @ evs) \<and>
   fsState (snd (downloadMetaInfo_loop a namespace name i err w)) = fsState w"
proof (induction a namespace name i err w rule: downloadMetaInfo_loop.induct)
  case (1 a namespace name i err w)
  let ?K = "UnavailableMetaInfoRetries (config a)"
  let ?w1 = "if i > 0 then time_Sleep (UnavailableMetaInfoRetrySleep (config a)) w else w"
  show ?case
  proof (cases "i < ?K")
    case False
    then show ?thesis by (simp add: downloadMetaInfo_loop_exhausted)
  next
    case True
    obtain r w' where cd: "call_Download a namespace name ?w1 = (r, w')"
      by (cases "call_Download a namespace name ?w1")
    have w': "downloads w \<le> downloads w'" "\<exists>evs. trace w' = trace w @ evs" "fsState w' = fsState w"
      using cd by (auto simp: call_Download_def time_Sleep_def split: if_splits)
    show ?thesis
    proof (cases r)
      case (Inr mi)
      then show ?thesis using True cd w'
        by (subst (1 2 3) downloadMetaInfo_loop.simps) simp
    next
      case (Inl e)
      show ?thesis
      proof (cases "e = metainfoclient_ErrNotFound")
        case True
        then show ?thesis using \<open>i < ?K\<close> cd w' Inl
          by (subst (1 2 3) downloadMetaInfo_loop.simps) simp
      next
        case False
        have step: "downloadMetaInfo_loop a namespace name i err w =
            downloadMetaInfo_loop a namespace name (i + 1) (Some e) w'"
          using True cd Inl False by (subst downloadMetaInfo_loop.simps) simp
        note IH = "1.IH"[OF True cd[symmetric, unfolded Inl] refl False]
        show ?thesis unfolding step using IH w' by auto
      qed
    qed
  qed
qed

section \<open>Claims about \<open>downloadMetaInfo\<close>\<close>

text \<open>
  Claim C2. With a retry count \<open>K \<ge> 1\<close> and a source whose every \<open>Download\<close> fails with an
  error other than not-found, \<open>downloadMetaInfo\<close> makes exactly \<open>K\<close> attempts (the download
  counter grows by \<open>K\<close> and the log gains \<open>K\<close> download events), sleeps the configured
  delay before every attempt but the first, and returns \<open>download metainfo: e\<close> where \<open>e\<close>
  is the error of the last, \<open>K\<close>-th attempt.
\<close>

theorem downloadMetaInfo_retry_bound:
  assumes "1 \<le> UnavailableMetaInfoRetries (config a)"
    and "\<forall>n. \<exists>e. metaInfoClient a n namespace name = Inl e \<and> e \<noteq> metainfoclient_ErrNotFound"
  shows "\<exists>e. metaInfoClient a (downloads w + nat (UnavailableMetaInfoRetries (config a)) - 1)
              namespace name = Inl e \<and>
     downloadMetaInfo a namespace name w =
       (Inl (Errorf ''download metainfo'' (Some e)),
        w\<lparr>downloads := downloads w + nat (UnavailableMetaInfoRetries (config a)),
          trace := trace w @ EvDownload namespace name
            # concat (replicate (nat (UnavailableMetaInfoRetries (config a)) - 1)
                 [EvSleep (UnavailableMetaInfoRetrySleep (config a)), EvDownload namespace name])\<rparr>)"
proof -
  let ?n = "downloads w + nat (UnavailableMetaInfoRetries (config a)) - 1"
  obtain e where e: "metaInfoClient a ?n namespace name = Inl e"
    using assms(2) by blast
  have "0 < UnavailableMetaInfoRetries (config a)" using assms(1) by simp
  from downloadMetaInfo_loop_transient[OF assms(2) this, of None w] e
  show ?thesis by (simp add: downloadMetaInfo_def)
qed

theorem downloadMetaInfo_retry_bound_witness:
  "downloadMetaInfo (fake_archive spec_FileStore 3 client_unavailable) ''ns'' ''abc'' (world0 empty_store) =
     (Inl (Errorf ''download metainfo'' (Some (Other ''timeout''))),
      \<lparr>fsState = empty_store, downloads = 3,
       trace = [EvDownload ''ns'' ''abc'', EvSleep 5, EvDownload ''ns'' ''abc'',
                EvSleep 5, EvDownload ''ns'' ''abc'']\<rparr>)"
  using downloadMetaInfo_retry_bound[of "fake_archive spec_FileStore 3 client_unavailable" "''ns''" "''abc''" "world0 empty_store"]
  by (simp add: fake_archive_def client_unavailable_def world0_def numeral_3_eq_3)

text \<open>With a retry count of at least one in \<open>a.config\<close>, the first thing
  \<open>downloadMetaInfo\<close> does is a \<open>Download\<close> attempt.\<close>

lemma downloadMetaInfo_first_attempt:
  assumes K: "1 \<le> UnavailableMetaInfoRetries (config a)"
  shows "downloads w < downloads (snd (downloadMetaInfo a namespace name w)) \<and>
      (\<exists>evs. trace (snd (downloadMetaInfo a namespace name w)) =
                trace w @ EvDownload namespace name # evs)"
proof -
  obtain r w' where cd: "call_Download a namespace name w = (r, w')"
    by (cases "call_Download a namespace name w")
  then have w': "downloads w' = Suc (downloads w)" "trace w' = trace w @ [EvDownload namespace name]"
    by (auto simp: call_Download_def)
  have "snd (downloadMetaInfo a namespace name w) = w' \<or>
        (\<exists>e. snd (downloadMetaInfo a namespace name w) =
              snd (downloadMetaInfo_loop a namespace name 1 (Some e) w'))"
    unfolding downloadMetaInfo_def using K cd
    by (subst (1 2) downloadMetaInfo_loop.simps) (auto split: sum.splits)
  then have g: "downloads w' \<le> downloads (snd (downloadMetaInfo a namespace name w)) \<and>
     (\<exists>evs. trace (snd (downloadMetaInfo a namespace name w)) = trace w' @ evs)"
    using downloadMetaInfo_loop_grows[of w' a namespace name 1] by auto
  have "downloads w < downloads (snd (downloadMetaInfo a namespace name w))"
    using g w' by simp
  moreover have "\<exists>evs. trace (snd (downloadMetaInfo a namespace name w)) =
      trace w @ EvDownload namespace name # evs"
    using g w' by auto
  ultimately show ?thesis by simp
qed

text \<open>The defaults turn a configured count of zero into the default count and leave every
  other count alone.\<close>

lemma applyDefaults_retries:
  "0 < UnavailableMetaInfoRetries defaults \<Longrightarrow> 0 \<le> UnavailableMetaInfoRetries c \<Longrightarrow>
   1 \<le> UnavailableMetaInfoRetries (applyDefaults defaults c)"
  by (simp add: applyDefaults_def)

text \<open>
  Claim C3. For every configuration (a retry count that is not negative, zero included)
  handed to \<open>NewTorrentArchive\<close>, and for the empty configuration of
  \<open>DefaultTorrentArchive\<close>, \<open>downloadMetaInfo\<close> makes at least one \<open>Download\<close> attempt, and
  that attempt is the first thing it does: no delay comes before it.
\<close>

theorem downloadMetaInfo_at_least_one_attempt:
  assumes "0 < UnavailableMetaInfoRetries defaults"
    and "0 \<le> UnavailableMetaInfoRetries c"
  shows
  "downloads w < downloads (snd (downloadMetaInfo
      (NewTorrentArchive defaults c store mic deserialize serialize newTorrent newBitfield)
      namespace name w)) \<and>
   (\<exists>evs. trace (snd (downloadMetaInfo
      (NewTorrentArchive defaults c store mic deserialize serialize newTorrent newBitfield)
      namespace name w)) = trace w @ EvDownload namespace name # evs) \<and>
   downloads w < downloads (snd (downloadMetaInfo
      (DefaultTorrentArchive defaults store mic deserialize serialize newTorrent newBitfield)
      namespace name w)) \<and>
   (\<exists>evs. trace (snd (downloadMetaInfo
      (DefaultTorrentArchive defaults store mic deserialize serialize newTorrent newBitfield)
      namespace name w)) = trace w @ EvDownload namespace name # evs)"
proof -
  let ?a = "NewTorrentArchive defaults c store mic deserialize serialize newTorrent newBitfield"
  let ?b = "DefaultTorrentArchive defaults store mic deserialize serialize newTorrent newBitfield"
  have "1 \<le> UnavailableMetaInfoRetries (config ?a)"
    using applyDefaults_retries[OF assms] by (simp add: NewTorrentArchive_def)
  note A = downloadMetaInfo_first_attempt[OF this, of w namespace name]
  have "1 \<le> UnavailableMetaInfoRetries (config ?b)"
    using assms(1) by (simp add: DefaultTorrentArchive_def NewTorrentArchive_def applyDefaults_def)
  note B = downloadMetaInfo_first_attempt[OF this, of w namespace name]
  show ?thesis using A B by blast
qed

theorem downloadMetaInfo_at_least_one_attempt_witness:
  "UnavailableMetaInfoRetries (config (DefaultTorrentArchive
      \<lparr>UnavailableMetaInfoRetries = 3, UnavailableMetaInfoRetrySleep = 5\<rparr>
      spec_FileStore client_unavailable fake_DeserializeMetaInfo fake_Serialize
      fake_NewTorrent fake_newBitfield)) = 3 \<and>
   downloads (world0 empty_store) <
     downloads (snd (downloadMetaInfo
       (NewTorrentArchive \<lparr>UnavailableMetaInfoRetries = 3, UnavailableMetaInfoRetrySleep = 5\<rparr>
          \<lparr>UnavailableMetaInfoRetries = 0, UnavailableMetaInfoRetrySleep = 0\<rparr>
          spec_FileStore client_unavailable fake_DeserializeMetaInfo fake_Serialize
          fake_NewTorrent fake_newBitfield)
       ''ns'' ''abc'' (world0 empty_store))) \<and>
   downloads (world0 empty_store) <
     downloads (snd (downloadMetaInfo
       (NewTorrentArchive \<lparr>UnavailableMetaInfoRetries = 3, UnavailableMetaInfoRetrySleep = 5\<rparr>
          \<lparr>UnavailableMetaInfoRetries = 1, UnavailableMetaInfoRetrySleep = 0\<rparr>
          spec_FileStore client_unavailable fake_DeserializeMetaInfo fake_Serialize
          fake_NewTorrent fake_newBitfield)
       ''ns'' ''abc'' (world0 empty_store)))"
  using
    downloadMetaInfo_at_least_one_attempt[of
      "\<lparr>UnavailableMetaInfoRetries = 3, UnavailableMetaInfoRetrySleep = 5\<rparr>"
      "\<lparr>UnavailableMetaInfoRetries = 0, UnavailableMetaInfoRetrySleep = 0\<rparr>"
      "world0 empty_store" spec_FileStore client_unavailable fake_DeserializeMetaInfo fake_Serialize
      fake_NewTorrent fake_newBitfield "''ns''" "''abc''"]
    downloadMetaInfo_at_least_one_attempt[of
      "\<lparr>UnavailableMetaInfoRetries = 3, UnavailableMetaInfoRetrySleep = 5\<rparr>"
      "\<lparr>UnavailableMetaInfoRetries = 1, UnavailableMetaInfoRetrySleep = 0\<rparr>"
      "world0 empty_store" spec_FileStore client_unavailable fake_DeserializeMetaInfo fake_Serialize
      fake_NewTorrent fake_newBitfield "''ns''" "''abc''"]
  by (simp add: DefaultTorrentArchive_def NewTorrentArchive_def applyDefaults_def)

text \<open>
  Claim C4. If the first \<open>Download\<close> attempt (there is one as soon as the retry count is
  at least one) answers with the client's not-found error, \<open>downloadMetaInfo\<close> makes
  exactly that one attempt, sleeps never, and returns \<open>storage.ErrNotFound\<close>.
\<close>

theorem downloadMetaInfo_not_found: 
  assumes "1 \<le> UnavailableMetaInfoRetries (config a)"
    and "metaInfoClient a (downloads w) namespace name = Inl metainfoclient_ErrNotFound"
  shows "downloadMetaInfo a namespace name w =
     (Inl storage_ErrNotFound, w\<lparr>downloads := Suc (downloads w), trace := trace w @ [EvDownload namespace name]\<rparr>)"
  using assms unfolding downloadMetaInfo_def
  by (subst downloadMetaInfo_loop.simps) (simp add: call_Download_def)

theorem downloadMetaInfo_not_found_witness:
  "downloadMetaInfo (fake_archive spec_FileStore 3 client_absent) ''ns'' ''abc'' (world0 empty_store) =
     (Inl storage_ErrNotFound, \<lparr>fsState = empty_store, downloads = 1, trace = [EvDownload ''ns'' ''abc'']\<rparr>)"
  using downloadMetaInfo_not_found[of "fake_archive spec_FileStore 3 client_absent" "world0 empty_store" "''ns''" "''abc''"]
  by (simp add: fake_archive_def client_absent_def world0_def)

section \<open>Claims about \<open>DeleteTorrent\<close> and \<open>GetTorrent\<close>\<close>

text \<open>
  Claim C8. \<open>DeleteTorrent\<close> returns nil when the store's delete returns nil or an
  error that \<open>os.IsNotExist\<close> recognises, and returns any other error of the store as
  it is. On the store of the specification, whose delete fails only for lack of the
  file, deleting an absent name succeeds, and two deletions in a row both succeed from
  every state.
\<close>

theorem DeleteTorrent_idempotent:
  fixes a :: "('s, 't) TorrentArchive" and b :: "(LocalStore, 'u) TorrentArchive"
  shows
  "(fst (DeleteDownloadOrCacheFile (fs a) (fsState w) name) = None \<longrightarrow>
      fst (DeleteTorrent a name w) = None) \<and>
   (\<forall>e. fst (DeleteDownloadOrCacheFile (fs a) (fsState w) name) = Some e \<longrightarrow>
      fst (DeleteTorrent a name w) = (if os_IsNotExist e then None else Some e)) \<and>
   (fs b = spec_FileStore \<longrightarrow>
      (files (fsState v) name = None \<longrightarrow> fst (DeleteTorrent b name v) = None) \<and>
      fst (DeleteTorrent b name v) = None \<and>
      fst (DeleteTorrent b name (snd (DeleteTorrent b name v))) = None)"
  by (auto simp: DeleteTorrent_def call_DeleteDownloadOrCacheFile_def spec_FileStore_def
      spec_DeleteDownloadOrCacheFile_def split: prod.splits option.splits)

theorem DeleteTorrent_idempotent_witness:
  "fst (DeleteTorrent (fake_archive (failing_FileStore (PathError ''abc'' os_ErrNotExist)) 3 client_absent)
          ''abc'' (world0 ())) = None \<and>
   fst (DeleteTorrent (fake_archive (failing_FileStore (Other ''permission denied'')) 3 client_absent)
          ''abc'' (world0 ())) = Some (Other ''permission denied'') \<and>
   fst (DeleteTorrent (fake_archive spec_FileStore 3 client_absent) ''abc'' (world0 store_with_file)) = None \<and>
   fst (DeleteTorrent (fake_archive spec_FileStore 3 client_absent) ''abc''
          (snd (DeleteTorrent (fake_archive spec_FileStore 3 client_absent) ''abc'' (world0 store_with_file)))) = None"
  using DeleteTorrent_idempotent[of "fake_archive (failing_FileStore (PathError ''abc'' os_ErrNotExist)) 3 client_absent"
      "world0 ()" "''abc''" "fake_archive spec_FileStore 3 client_absent" "world0 store_with_file"]
    DeleteTorrent_idempotent[of "fake_archive (failing_FileStore (Other ''permission denied'')) 3 client_absent"
      "world0 ()" "''abc''" "fake_archive spec_FileStore 3 client_absent" "world0 store_with_file"]
  by (simp add: fake_archive_def failing_FileStore_def world0_def)

text \<open>
  Claim C6. On the store of the specification, for every name whose metainfo slot is
  absent, \<open>GetTorrent\<close> fails with the not-exist failure of the read, surfaced under the
  context \<open>get metainfo\<close> (the error itself is a new one, which \<open>os.IsNotExist\<close> does not
  recognise), and the only call it has made is that read: the number of \<open>Download\<close> calls
  and the store are unchanged. The same holds for every store and every error of the
  read.
\<close>

theorem GetTorrent_requires_metainfo:
  fixes a :: "('s, 't) TorrentArchive" and b :: "(LocalStore, 'u) TorrentArchive"
  shows
  "(\<forall>e. GetMetadata (fs a) (fsState w) name TorrentMeta = Inl e \<longrightarrow>
      GetTorrent a namespace name w =
        (Inl (Errorf ''get metainfo'' (Some e)), w\<lparr>trace := trace w @ [EvGetMetadata name TorrentMeta]\<rparr>) \<and>
      \<not> os_IsNotExist (Errorf ''get metainfo'' (Some e))) \<and>
   (fs b = spec_FileStore \<and> metadata (fsState v) (name, TorrentMeta) = None \<longrightarrow>
      GetTorrent b namespace name v =
        (Inl (Errorf ''get metainfo'' (Some os_ErrNotExist)),
         v\<lparr>trace := trace v @ [EvGetMetadata name TorrentMeta]\<rparr>))"
  by (simp add: GetTorrent_def call_GetMetadata_def spec_FileStore_def spec_GetMetadata_def)

theorem GetTorrent_requires_metainfo_witness:
  "GetTorrent (fake_archive (failing_FileStore (Other ''input/output error'')) 3 (client_serving mi_abc))
      ''ns'' ''abc'' (world0 ()) =
     (Inl (Errorf ''get metainfo'' (Some (Other ''input/output error''))),
      \<lparr>fsState = (), downloads = 0, trace = [EvGetMetadata ''abc'' TorrentMeta]\<rparr>) \<and>
   GetTorrent (fake_archive spec_FileStore 3 (client_serving mi_abc)) ''ns'' ''abc'' (world0 empty_store) =
     (Inl (Errorf ''get metainfo'' (Some os_ErrNotExist)),
      \<lparr>fsState = empty_store, downloads = 0, trace = [EvGetMetadata ''abc'' TorrentMeta]\<rparr>)"
  using GetTorrent_requires_metainfo[of "fake_archive (failing_FileStore (Other ''input/output error'')) 3 (client_serving mi_abc)"
      "world0 ()" "''abc''" "''ns''" "fake_archive spec_FileStore 3 (client_serving mi_abc)" "world0 empty_store"]
  by (simp add: fake_archive_def failing_FileStore_def world0_def empty_store_def)

section \<open>Claims about \<open>Stat\<close> and the hit path of \<open>CreateTorrent\<close>\<close>

text \<open>
  Claim C7, as stated, fails for the piece-status slot: its bytes go through
  \<open>newBitfieldFromPieceStatusBytes\<close>, which returns a bitfield and no error, so no content
  of that slot makes \<open>Stat\<close> fail. Here the slot holds a byte the decoder does not know
  and \<open>Stat\<close> succeeds.
\<close>

theorem Stat_piece_status_counterexample:
  "metadata store_with_slots (''abc'', PieceStatus) = Some [1, 255] \<and>
   fst (Stat (fake_archive spec_FileStore 3 client_absent) ''ns'' ''abc'' (world0 store_with_slots)) =
     Inr \<lparr>metainfo = mi_abc, bitfield = [True, False]\<rparr>"
  by (simp add: Stat_def call_GetMetadata_def fake_archive_def spec_FileStore_def
      spec_GetMetadata_def store_with_slots_def world0_def fake_DeserializeMetaInfo_def
      fake_newBitfield_def NewTorrentInfo_def)

text \<open>
  Claim C7, amended. \<open>Stat\<close> returns the store's error as it is when the read of the
  metainfo slot fails; else fails with \<open>deserialize metainfo: e\<close> when those bytes do not
  decode; else returns the store's error as it is when the read of the piece-status slot
  fails; else succeeds, whatever the piece-status bytes are. On the store of the
  specification the read error is the not-exist error of an absent slot. In every case
  the calls made are one or two reads of metadata: the store and the download counter
  are unchanged.
\<close>

theorem Stat_outcomes:
  fixes a :: "('s, 't) TorrentArchive" and b :: "(LocalStore, 'u) TorrentArchive"
  shows
  "(\<forall>e. GetMetadata (fs a) (fsState w) name TorrentMeta = Inl e \<longrightarrow>
      Stat a namespace name w =
        (Inl e, w\<lparr>trace := trace w @ [EvGetMetadata name TorrentMeta]\<rparr>)) \<and>
   (\<forall>raw e. GetMetadata (fs a) (fsState w) name TorrentMeta = Inr raw \<and>
        DeserializeMetaInfo a raw = Inl e \<longrightarrow>
      Stat a namespace name w =
        (Inl (Errorf ''deserialize metainfo'' (Some e)),
         w\<lparr>trace := trace w @ [EvGetMetadata name TorrentMeta]\<rparr>)) \<and>
   (\<forall>raw mi e. GetMetadata (fs a) (fsState w) name TorrentMeta = Inr raw \<and>
        DeserializeMetaInfo a raw = Inr mi \<and>
        GetMetadata (fs a) (fsState w) name PieceStatus = Inl e \<longrightarrow>
      Stat a namespace name w =
        (Inl e, w\<lparr>trace := trace w @ [EvGetMetadata name TorrentMeta, EvGetMetadata name PieceStatus]\<rparr>)) \<and>
   (\<forall>raw mi raw'. GetMetadata (fs a) (fsState w) name TorrentMeta = Inr raw \<and>
        DeserializeMetaInfo a raw = Inr mi \<and>
        GetMetadata (fs a) (fsState w) name PieceStatus = Inr raw' \<longrightarrow>
      Stat a namespace name w =
        (Inr (NewTorrentInfo mi (newBitfieldFromPieceStatusBytes a name raw')),
         w\<lparr>trace := trace w @ [EvGetMetadata name TorrentMeta, EvGetMetadata name PieceStatus]\<rparr>)) \<and>
   (fs b = spec_FileStore \<and> metadata (fsState v) (name, TorrentMeta) = None \<longrightarrow>
      fst (Stat b namespace name v) = Inl os_ErrNotExist) \<and>
   (\<forall>raw mi. fs b = spec_FileStore \<and> metadata (fsState v) (name, TorrentMeta) = Some raw \<and>
        DeserializeMetaInfo b raw = Inr mi \<and> metadata (fsState v) (name, PieceStatus) = None \<longrightarrow>
      fst (Stat b namespace name v) = Inl os_ErrNotExist)"
  by (simp add: Stat_def call_GetMetadata_def spec_FileStore_def spec_GetMetadata_def)

theorem Stat_outcomes_witness:
  "Stat (fake_archive spec_FileStore 3 client_absent) ''ns'' ''abc'' (world0 empty_store) =
     (Inl os_ErrNotExist,
      \<lparr>fsState = empty_store, downloads = 0, trace = [EvGetMetadata ''abc'' TorrentMeta]\<rparr>) \<and>
   Stat (fake_archive spec_FileStore 3 client_absent) ''ns'' ''abc''
        (world0 (store_with_slots\<lparr>metadata := (metadata store_with_slots)((''abc'', TorrentMeta) \<mapsto> [9])\<rparr>)) =
     (Inl (Errorf ''deserialize metainfo'' (Some (Other ''bad metainfo''))),
      \<lparr>fsState = store_with_slots\<lparr>metadata := (metadata store_with_slots)((''abc'', TorrentMeta) \<mapsto> [9])\<rparr>,
       downloads = 0, trace = [EvGetMetadata ''abc'' TorrentMeta]\<rparr>) \<and>
   Stat (fake_archive spec_FileStore 3 client_absent) ''ns'' ''abc''
        (world0 (store_with_slots\<lparr>metadata := (metadata store_with_slots)((''abc'', PieceStatus) := None)\<rparr>)) =
     (Inl os_ErrNotExist,
      \<lparr>fsState = store_with_slots\<lparr>metadata := (metadata store_with_slots)((''abc'', PieceStatus) := None)\<rparr>,
       downloads = 0, trace = [EvGetMetadata ''abc'' TorrentMeta, EvGetMetadata ''abc'' PieceStatus]\<rparr>) \<and>
   Stat (fake_archive spec_FileStore 3 client_absent) ''ns'' ''abc'' (world0 store_with_slots) =
     (Inr \<lparr>metainfo = mi_abc, bitfield = [True, False]\<rparr>,
      \<lparr>fsState = store_with_slots, downloads = 0,
       trace = [EvGetMetadata ''abc'' TorrentMeta, EvGetMetadata ''abc'' PieceStatus]\<rparr>)"
  using
    Stat_outcomes[of "fake_archive spec_FileStore 3 client_absent" "world0 empty_store" "''abc''" "''ns''"
      "fake_archive spec_FileStore 3 client_absent" "world0 empty_store"]
    Stat_outcomes[of "fake_archive spec_FileStore 3 client_absent"
      "world0 (store_with_slots\<lparr>metadata := (metadata store_with_slots)((''abc'', TorrentMeta) \<mapsto> [9])\<rparr>)" "''abc''" "''ns''"
      "fake_archive spec_FileStore 3 client_absent" "world0 empty_store"]
    Stat_outcomes[of "fake_archive spec_FileStore 3 client_absent"
      "world0 (store_with_slots\<lparr>metadata := (metadata store_with_slots)((''abc'', PieceStatus) := None)\<rparr>)" "''abc''" "''ns''"
      "fake_archive spec_FileStore 3 client_absent"
      "world0 (store_with_slots\<lparr>metadata := (metadata store_with_slots)((''abc'', PieceStatus) := None)\<rparr>)"]
    Stat_outcomes[of "fake_archive spec_FileStore 3 client_absent" "world0 store_with_slots" "''abc''" "''ns''"
      "fake_archive spec_FileStore 3 client_absent" "world0 empty_store"]
  by (simp add: fake_archive_def spec_FileStore_def spec_GetMetadata_def store_with_slots_def empty_store_def
      world0_def fake_DeserializeMetaInfo_def fake_newBitfield_def NewTorrentInfo_def)

text \<open>
  When the first read does not report not-exist, \<open>CreateTorrent\<close> runs the very steps of
  \<open>GetTorrent\<close>.
\<close>

lemma CreateTorrent_no_miss:
  assumes "\<forall>e. GetMetadata (fs a) (fsState w) name TorrentMeta = Inl e \<longrightarrow> \<not> os_IsNotExist e"
  shows "CreateTorrent a namespace name w = GetTorrent a namespace name w"
proof (cases "GetMetadata (fs a) (fsState w) name TorrentMeta")
  case (Inl e)
  then have "\<not> os_IsNotExist e" using assms by simp
  then show ?thesis using Inl
    by (simp add: CreateTorrent_def GetTorrent_def call_GetMetadata_def)
next
  case (Inr raw)
  then show ?thesis
    by (simp add: CreateTorrent_def GetTorrent_def call_GetMetadata_def split: sum.splits prod.splits)
qed

lemma GetTorrent_effects:
  "downloads (snd (GetTorrent a namespace name w)) = downloads w \<and>
   fsState (snd (GetTorrent a namespace name w)) = fsState w \<and>
   (trace (snd (GetTorrent a namespace name w)) = trace w @ [EvGetMetadata name TorrentMeta] \<or>
    (\<exists>mi. trace (snd (GetTorrent a namespace name w)) =
             trace w @ [EvGetMetadata name TorrentMeta, EvNewTorrent mi]))"
  by (auto simp: GetTorrent_def call_GetMetadata_def call_NewTorrent_def split: sum.splits prod.splits)

text \<open>
  Claim C10. In every state where the read of the metainfo slot does not report
  not-exist (the slot is present, or the read fails otherwise), \<open>CreateTorrent\<close> and
  \<open>GetTorrent\<close> return the same result and leave the same log, wrapped errors
  included; \<open>CreateTorrent\<close> then makes no \<open>Download\<close> call and no call that allocates a
  file or writes the store: its calls are the read and, when the bytes decode,
  \<open>NewTorrent\<close>. On the store of the specification a present slot is such a state.
\<close>

theorem CreateTorrent_present_eq_GetTorrent:
  fixes a :: "('s, 't) TorrentArchive" and b :: "(LocalStore, 'u) TorrentArchive"
  shows
  "((\<forall>e. GetMetadata (fs a) (fsState w) name TorrentMeta = Inl e \<longrightarrow> \<not> os_IsNotExist e) \<longrightarrow>
      CreateTorrent a namespace name w = GetTorrent a namespace name w \<and>
      downloads (snd (CreateTorrent a namespace name w)) = downloads w \<and>
      fsState (snd (CreateTorrent a namespace name w)) = fsState w \<and>
      (trace (snd (CreateTorrent a namespace name w)) = trace w @ [EvGetMetadata name TorrentMeta] \<or>
       (\<exists>mi. trace (snd (CreateTorrent a namespace name w)) =
                trace w @ [EvGetMetadata name TorrentMeta, EvNewTorrent mi]))) \<and>
   (fs b = spec_FileStore \<and> metadata (fsState v) (name, TorrentMeta) \<noteq> None \<longrightarrow>
      CreateTorrent b namespace name v = GetTorrent b namespace name v)"
proof (intro conjI impI)
  assume h: "\<forall>e. GetMetadata (fs a) (fsState w) name TorrentMeta = Inl e \<longrightarrow> \<not> os_IsNotExist e"
  note eq = CreateTorrent_no_miss[OF h, of namespace]
  show "CreateTorrent a namespace name w = GetTorrent a namespace name w" by (rule eq)
  show "downloads (snd (CreateTorrent a namespace name w)) = downloads w"
    unfolding eq using GetTorrent_effects[of a namespace name w] by blast
  show "fsState (snd (CreateTorrent a namespace name w)) = fsState w"
    unfolding eq using GetTorrent_effects[of a namespace name w] by blast
  show "trace (snd (CreateTorrent a namespace name w)) = trace w @ [EvGetMetadata name TorrentMeta] \<or>
       (\<exists>mi. trace (snd (CreateTorrent a namespace name w)) =
                trace w @ [EvGetMetadata name TorrentMeta, EvNewTorrent mi])"
    unfolding eq using GetTorrent_effects[of a namespace name w] by blast
next
  assume h: "fs b = spec_FileStore \<and> metadata (fsState v) (name, TorrentMeta) \<noteq> None"
  then have "\<forall>e. GetMetadata (fs b) (fsState v) name TorrentMeta = Inl e \<longrightarrow> \<not> os_IsNotExist e"
    by (auto simp: spec_FileStore_def spec_GetMetadata_def)
  then show "CreateTorrent b namespace name v = GetTorrent b namespace name v"
    by (rule CreateTorrent_no_miss)
qed

theorem CreateTorrent_present_eq_GetTorrent_witness:
  "CreateTorrent (fake_archive (failing_FileStore (Other ''input/output error'')) 3 (client_serving mi_abc))
      ''ns'' ''abc'' (world0 ()) =
   GetTorrent (fake_archive (failing_FileStore (Other ''input/output error'')) 3 (client_serving mi_abc))
      ''ns'' ''abc'' (world0 ()) \<and>
   CreateTorrent (fake_archive spec_FileStore 3 (client_serving mi_abc')) ''ns'' ''abc'' (world0 store_with_slots) =
     (Inr mi_abc, \<lparr>fsState = store_with_slots, downloads = 0,
                   trace = [EvGetMetadata ''abc'' TorrentMeta, EvNewTorrent mi_abc]\<rparr>) \<and>
   GetTorrent (fake_archive spec_FileStore 3 (client_serving mi_abc')) ''ns'' ''abc'' (world0 store_with_slots) =
     (Inr mi_abc, \<lparr>fsState = store_with_slots, downloads = 0,
                   trace = [EvGetMetadata ''abc'' TorrentMeta, EvNewTorrent mi_abc]\<rparr>)"
  using
    CreateTorrent_present_eq_GetTorrent[of "fake_archive (failing_FileStore (Other ''input/output error'')) 3 (client_serving mi_abc)"
      "world0 ()" "''abc''" "''ns''" "fake_archive spec_FileStore 3 (client_serving mi_abc')" "world0 store_with_slots"]
  by (simp add: fake_archive_def failing_FileStore_def GetTorrent_def call_GetMetadata_def call_NewTorrent_def
      spec_FileStore_def spec_GetMetadata_def store_with_slots_def world0_def
      fake_DeserializeMetaInfo_def fake_NewTorrent_def mi_abc_def)

section \<open>Errors of \<open>CreateTorrent\<close>\<close>

text \<open>
  An error of \<open>downloadMetaInfo\<close> is \<open>storage.ErrNotFound\<close> or was made with the context
  \<open>download metainfo\<close>.
\<close>

lemma downloadMetaInfo_loop_error:
  "fst (downloadMetaInfo_loop a namespace name i err w) = Inl e \<Longrightarrow>
   e = storage_ErrNotFound \<or> e = Errorf ''download metainfo'' err \<or>
   (\<exists>u. e = Errorf ''download metainfo'' (Some u))"
proof (induction a namespace name i err w rule: downloadMetaInfo_loop.induct)
  case (1 a namespace name i err w)
  let ?K = "UnavailableMetaInfoRetries (config a)"
  let ?w1 = "if i > 0 then time_Sleep (UnavailableMetaInfoRetrySleep (config a)) w else w"
  show ?case
  proof (cases "i < ?K")
    case False
    then show ?thesis using "1.prems" by (simp add: downloadMetaInfo_loop_exhausted)
  next
    case True
    obtain r w' where cd: "call_Download a namespace name ?w1 = (r, w')"
      by (cases "call_Download a namespace name ?w1")
    show ?thesis
    proof (cases r)
      case (Inr mi)
      then show ?thesis using True cd "1.prems"
        by (subst (asm) downloadMetaInfo_loop.simps) simp
    next
      case (Inl e')
      show ?thesis
      proof (cases "e' = metainfoclient_ErrNotFound")
        case True
        then show ?thesis using \<open>i < ?K\<close> cd Inl "1.prems"
          by (subst (asm) downloadMetaInfo_loop.simps) simp
      next
        case False
        have step: "downloadMetaInfo_loop a namespace name i err w =
            downloadMetaInfo_loop a namespace name (i + 1) (Some e') w'"
          using True cd Inl False by (subst downloadMetaInfo_loop.simps) simp
        note IH = "1.IH"[OF True cd[symmetric, unfolded Inl] refl False]
        show ?thesis using IH "1.prems" unfolding step by blast
      qed
    qed
  qed
qed

lemma downloadMetaInfo_error:
  "fst (downloadMetaInfo a namespace name w) = Inl e \<Longrightarrow>
   e = storage_ErrNotFound \<or> (\<exists>u. e = Errorf ''download metainfo'' u)"
  unfolding downloadMetaInfo_def by (drule downloadMetaInfo_loop_error) blast

text \<open>
  An error that leaves the branch of the miss is the fetcher's not-found error or
  carries the context of the step that failed.
\<close>

lemma CreateTorrent_download_error:
  assumes "fst (CreateTorrent_download a namespace name w) = Inl e"
  shows "(e = storage_ErrNotFound \<and> fst (downloadMetaInfo a namespace name w) = Inl storage_ErrNotFound) \<or>
     (\<exists>u. e = Errorf ''download metainfo'' u) \<or>
     (\<exists>u. e = Errorf ''ensure download/cache file present'' u) \<or>
     (\<exists>u. e = Errorf ''serialize downloaded metainfo'' u) \<or>
     (\<exists>u. e = Errorf ''get or set metainfo'' u)"
proof (cases "downloadMetaInfo a namespace name w")
  case (Pair r w1)
  show ?thesis
  proof (cases r)
    case (Inl e')
    then have ee: "e = e'" using assms Pair by (simp add: CreateTorrent_download_def)
    have f: "fst (downloadMetaInfo a namespace name w) = Inl e" using Pair Inl ee by simp
    from downloadMetaInfo_error[OF f]
    show ?thesis
    proof
      assume "e = storage_ErrNotFound"
      then show ?thesis using f by simp
    next
      assume "\<exists>u. e = Errorf ''download metainfo'' u"
      then show ?thesis by (rule disjI2[OF disjI1])
    qed
  next
    case (Inr mi)
    have d: "downloadMetaInfo a namespace name w = (Inr mi, w1)" using Pair Inr by simp
    have "(\<exists>u. e = Errorf ''ensure download/cache file present'' u) \<or>
         (\<exists>u. e = Errorf ''serialize downloaded metainfo'' u) \<or>
         (\<exists>u. e = Errorf ''get or set metainfo'' u)"
      using assms d
      by (auto simp: CreateTorrent_download_def split: prod.splits option.splits sum.splits)
    then show ?thesis by (rule disjI2[OF disjI2])
  qed
qed

lemma CreateTorrent_error_cases:
  assumes "fst (CreateTorrent a namespace name w) = Inl err"
  shows "((\<exists>e. GetMetadata (fs a) (fsState w) name TorrentMeta = Inl e \<and> os_IsNotExist e) \<and>
          fst (CreateTorrent_download a namespace name
                 (w\<lparr>trace := trace w @ [EvGetMetadata name TorrentMeta]\<rparr>)) = Inl err) \<or>
         (\<exists>u. err = Errorf ''get metainfo'' u) \<or>
         (\<exists>u. err = Errorf ''parse metainfo'' u) \<or>
         (\<exists>u. err = Errorf ''initialize torrent'' u)"
proof -
  let ?w0 = "w\<lparr>trace := trace w @ [EvGetMetadata name TorrentMeta]\<rparr>"
  let ?r = "GetMetadata (fs a) (fsState w) name TorrentMeta"
  have tail: "(\<exists>u. err = Errorf ''parse metainfo'' u) \<or> (\<exists>u. err = Errorf ''initialize torrent'' u)"
    if t: "fst (case DeserializeMetaInfo a raw of
                  Inl err \<Rightarrow> (Inl (Errorf ''parse metainfo'' (Some err)), wd)
                | Inr mi \<Rightarrow>
                    (case call_NewTorrent a mi wd of
                       (Inl err, w5) \<Rightarrow> (Inl (Errorf ''initialize torrent'' (Some err)), w5)
                     | (Inr t, w5) \<Rightarrow> (Inr t, w5))) = Inl err" for raw wd
    using t by (auto split: sum.splits prod.splits)
  show ?thesis
  proof (cases ?r)
    case (Inr raw)
    then have "(\<exists>u. err = Errorf ''parse metainfo'' u) \<or> (\<exists>u. err = Errorf ''initialize torrent'' u)"
      using assms tail[where raw = raw and wd = ?w0] by (simp add: CreateTorrent_def call_GetMetadata_def)
    then show ?thesis by blast
  next
    case (Inl e)
    show ?thesis
    proof (cases "os_IsNotExist e")
      case False
      then have "err = Errorf ''get metainfo'' (Some e)"
        using assms Inl by (simp add: CreateTorrent_def call_GetMetadata_def)
      then show ?thesis by blast
    next
      case True
      obtain r1 w4 where cd: "CreateTorrent_download a namespace name ?w0 = (r1, w4)"
        by (cases "CreateTorrent_download a namespace name ?w0")
      show ?thesis
      proof (cases r1)
        case (Inl e1)
        then have "err = e1" using assms \<open>?r = Inl e\<close> True cd
          by (simp add: CreateTorrent_def call_GetMetadata_def)
        then show ?thesis using \<open>?r = Inl e\<close> True cd Inl by simp
      next
        case (Inr raw)
        then have "(\<exists>u. err = Errorf ''parse metainfo'' u) \<or> (\<exists>u. err = Errorf ''initialize torrent'' u)"
          using assms \<open>?r = Inl e\<close> True cd tail[where raw = raw and wd = w4]
          by (simp add: CreateTorrent_def call_GetMetadata_def)
        then show ?thesis by blast
      qed
    qed
  qed
qed

text \<open>
  Runs of \<open>downloadMetaInfo\<close> against the in-memory clients.
\<close>

lemma downloadMetaInfo_first_answer:
  assumes "0 < UnavailableMetaInfoRetries (config a)"
  shows "metaInfoClient a (downloads w) namespace name = Inr mi \<Longrightarrow>
           downloadMetaInfo a namespace name w =
             (Inr mi, w\<lparr>downloads := Suc (downloads w), trace := trace w @ [EvDownload namespace name]\<rparr>)"
    and "metaInfoClient a (downloads w) namespace name = Inl metainfoclient_ErrNotFound \<Longrightarrow>
           downloadMetaInfo a namespace name w =
             (Inl storage_ErrNotFound,
              w\<lparr>downloads := Suc (downloads w), trace := trace w @ [EvDownload namespace name]\<rparr>)"
  using assms unfolding downloadMetaInfo_def
  by (subst downloadMetaInfo_loop.simps, simp add: call_Download_def)+

lemma run_absent:
  "downloadMetaInfo (fake_archive st 3 client_absent) namespace name w =
     (Inl storage_ErrNotFound,
      w\<lparr>downloads := Suc (downloads w), trace := trace w @ [EvDownload namespace name]\<rparr>)"
  by (rule downloadMetaInfo_first_answer(2)) (simp_all add: fake_archive_def client_absent_def)

lemma run_serving:
  "downloadMetaInfo (fake_archive st 3 (client_serving mi)) namespace name w =
     (Inr mi, w\<lparr>downloads := Suc (downloads w), trace := trace w @ [EvDownload namespace name]\<rparr>)"
  by (rule downloadMetaInfo_first_answer(1)) (simp_all add: fake_archive_def client_serving_def)

lemma run_unavailable_pair:
  "\<exists>w'. downloadMetaInfo (fake_archive st 3 client_unavailable) namespace name ((world0 s)\<lparr>trace := evs\<rparr>) =
     (Inl (Errorf ''download metainfo'' (Some (Other ''timeout''))), w')"
  using downloadMetaInfo_loop_transient[of "fake_archive st 3 client_unavailable" namespace name 0 None
      "(world0 s)\<lparr>trace := evs\<rparr>"]
  by (simp add: downloadMetaInfo_def fake_archive_def client_unavailable_def world0_def)

lemma fake_archive_sel:
  "config (fake_archive st K c) = \<lparr>UnavailableMetaInfoRetries = K, UnavailableMetaInfoRetrySleep = 5\<rparr>"
  "fs (fake_archive st K c) = st"
  "metaInfoClient (fake_archive st K c) = c"
  "DeserializeMetaInfo (fake_archive st K c) = fake_DeserializeMetaInfo"
  "Serialize (fake_archive st K c) = fake_Serialize"
  "NewTorrent (fake_archive st K c) = fake_NewTorrent"
  "newBitfieldFromPieceStatusBytes (fake_archive st K c) = fake_newBitfield"
  by (simp_all add: fake_archive_def)

text \<open>
  The not-found error comes from the fetcher alone, and every other error of
  \<open>CreateTorrent\<close> carries one of the seven contexts.
\<close>

lemma CreateTorrent_error_classes:
  "((\<exists>e. GetMetadata (fs a) (fsState w) name TorrentMeta = Inl e \<and> os_IsNotExist e) \<and>
    fst (downloadMetaInfo a namespace name (w\<lparr>trace := trace w @ [EvGetMetadata name TorrentMeta]\<rparr>)) =
      Inl storage_ErrNotFound \<longrightarrow>
      fst (CreateTorrent a namespace name w) = Inl storage_ErrNotFound) \<and>
   (fst (CreateTorrent a namespace name w) = Inl storage_ErrNotFound \<longrightarrow>
      (\<exists>e. GetMetadata (fs a) (fsState w) name TorrentMeta = Inl e \<and> os_IsNotExist e) \<and>
      fst (downloadMetaInfo a namespace name (w\<lparr>trace := trace w @ [EvGetMetadata name TorrentMeta]\<rparr>)) =
        Inl storage_ErrNotFound) \<and>
   (\<forall>err. fst (CreateTorrent a namespace name w) = Inl err \<and> err \<noteq> storage_ErrNotFound \<longrightarrow>
      (\<exists>ctx u. err = Errorf ctx u \<and>
         ctx \<in> {''get metainfo'', ''download metainfo'', ''ensure download/cache file present'',
                  ''serialize downloaded metainfo'', ''get or set metainfo'', ''parse metainfo'',
                  ''initialize torrent''}))"
proof (intro conjI impI allI)
  let ?w0 = "w\<lparr>trace := trace w @ [EvGetMetadata name TorrentMeta]\<rparr>"
  let ?r = "GetMetadata (fs a) (fsState w) name TorrentMeta"
  {
    assume h: "(\<exists>e. ?r = Inl e \<and> os_IsNotExist e) \<and>
      fst (downloadMetaInfo a namespace name ?w0) = Inl storage_ErrNotFound"
    obtain e where e: "?r = Inl e" "os_IsNotExist e" using h by blast
    obtain w1 where "downloadMetaInfo a namespace name ?w0 = (Inl storage_ErrNotFound, w1)"
      using h by (cases "downloadMetaInfo a namespace name ?w0") simp
    then show "fst (CreateTorrent a namespace name w) = Inl storage_ErrNotFound"
      using e by (simp add: CreateTorrent_def CreateTorrent_download_def call_GetMetadata_def)
  }
  {
    assume c: "fst (CreateTorrent a namespace name w) = Inl storage_ErrNotFound"
    have miss: "(\<exists>e. ?r = Inl e \<and> os_IsNotExist e) \<and>
        fst (CreateTorrent_download a namespace name ?w0) = Inl storage_ErrNotFound"
      using CreateTorrent_error_cases[OF c] by simp
    then show "\<exists>e. ?r = Inl e \<and> os_IsNotExist e" by (rule conjunct1)
    show "fst (downloadMetaInfo a namespace name ?w0) = Inl storage_ErrNotFound"
      using CreateTorrent_download_error[OF conjunct2[OF miss]] by simp
  }
  {
    fix err
    assume c: "fst (CreateTorrent a namespace name w) = Inl err \<and> err \<noteq> storage_ErrNotFound"
    then have c1: "fst (CreateTorrent a namespace name w) = Inl err" and n: "err \<noteq> storage_ErrNotFound"
      by simp_all
    have d: "(\<exists>u. err = Errorf ''get metainfo'' u) \<or>
         (\<exists>u. err = Errorf ''parse metainfo'' u) \<or>
         (\<exists>u. err = Errorf ''initialize torrent'' u) \<or>
         (\<exists>u. err = Errorf ''download metainfo'' u) \<or>
         (\<exists>u. err = Errorf ''ensure download/cache file present'' u) \<or>
         (\<exists>u. err = Errorf ''serialize downloaded metainfo'' u) \<or>
         (\<exists>u. err = Errorf ''get or set metainfo'' u)"
      using CreateTorrent_error_cases[OF c1] n
        CreateTorrent_download_error[of a namespace name ?w0 err]
      by blast
    then show "\<exists>ctx u. err = Errorf ctx u \<and>
         ctx \<in> {''get metainfo'', ''download metainfo'', ''ensure download/cache file present'',
                  ''serialize downloaded metainfo'', ''get or set metainfo'', ''parse metainfo'',
                  ''initialize torrent''}"
      by (elim disjE exE) simp_all
  }
qed

text \<open>
  The miss path, step by step: the read misses, the fetch gives \<open>mi\<close>, the file is
  ensured, \<open>mi\<close> is serialized and the commit gives back \<open>committed\<close>.
\<close>

lemma CreateTorrent_miss_unfold:
  fixes a :: "('s, 't) TorrentArchive"
  assumes miss: "GetMetadata (fs a) (fsState w) name TorrentMeta = Inl e" "os_IsNotExist e"
    and fetch: "downloadMetaInfo a namespace name
                  (w\<lparr>trace := trace w @ [EvGetMetadata name TorrentMeta]\<rparr>) = (Inr mi, w1)"
    and ensure: "EnsureDownloadOrCacheFilePresent (fs a) (fsState w1) (Name mi) (Length mi) = (None, s2)"
    and ser: "Serialize a mi = Inr attempted"
    and commit: "GetOrSetMetadata (fs a) s2 name TorrentMeta attempted = (Inr committed, s3)"
  shows "CreateTorrent a namespace name w =
      (case DeserializeMetaInfo a committed of
         Inl err \<Rightarrow> (Inl (Errorf ''parse metainfo'' (Some err)),
                      w1\<lparr>fsState := s3,
            trace := trace w1 @ [EvEnsureDownloadOrCacheFilePresent (Name mi) (Length mi),
                                 EvGetOrSetMetadata name TorrentMeta attempted]\<rparr>)
       | Inr mi' \<Rightarrow>
           (case NewTorrent a s3 mi' of
              Inl err \<Rightarrow> Inl (Errorf ''initialize torrent'' (Some err))
            | Inr t \<Rightarrow> Inr t,
            w1\<lparr>fsState := s3,
               trace := trace w1 @ [EvEnsureDownloadOrCacheFilePresent (Name mi) (Length mi),
                                    EvGetOrSetMetadata name TorrentMeta attempted,
                                    EvNewTorrent mi']\<rparr>))"
proof -
  have dl: "CreateTorrent_download a namespace name
              (w\<lparr>trace := trace w @ [EvGetMetadata name TorrentMeta]\<rparr>) =
        (Inr committed,
         w1\<lparr>fsState := s3,
            trace := trace w1 @ [EvEnsureDownloadOrCacheFilePresent (Name mi) (Length mi),
                                 EvGetOrSetMetadata name TorrentMeta attempted]\<rparr>)"
    using fetch ensure ser commit
    by (simp add: CreateTorrent_download_def call_EnsureDownloadOrCacheFilePresent_def
        call_GetOrSetMetadata_def)
  show ?thesis
    using miss dl
    by (simp add: CreateTorrent_def call_GetMetadata_def call_NewTorrent_def split: sum.splits)
qed

text \<open>
  What an error of \<open>downloadMetaInfo\<close> holds: the not-found error after an attempt that
  answered not-found, or the context \<open>download metainfo\<close> around an error that an attempt
  answered (around nil when no attempt was made).
\<close>

lemma downloadMetaInfo_loop_error_cause:
  "fst (downloadMetaInfo_loop a namespace name i err w) = Inl e \<Longrightarrow>
   (e = storage_ErrNotFound \<and>
      (\<exists>n. metaInfoClient a n namespace name = Inl metainfoclient_ErrNotFound)) \<or>
   e = Errorf ''download metainfo'' err \<or>
   (\<exists>n e'. metaInfoClient a n namespace name = Inl e' \<and> e' \<noteq> metainfoclient_ErrNotFound \<and>
       e = Errorf ''download metainfo'' (Some e'))"
proof (induction a namespace name i err w rule: downloadMetaInfo_loop.induct)
  case (1 a namespace name i err w)
  let ?K = "UnavailableMetaInfoRetries (config a)"
  let ?wd = "if i > 0 then time_Sleep (UnavailableMetaInfoRetrySleep (config a)) w else w"
  show ?case
  proof (cases "i < ?K")
    case False
    then show ?thesis using "1.prems" by (simp add: downloadMetaInfo_loop_exhausted)
  next
    case True
    obtain r w' where cd: "call_Download a namespace name ?wd = (r, w')"
      by (cases "call_Download a namespace name ?wd")
    then have ans: "metaInfoClient a (downloads ?wd) namespace name = r"
      by (simp add: call_Download_def)
    show ?thesis
    proof (cases r)
      case (Inr mi)
      then show ?thesis using True cd "1.prems"
        by (subst (asm) downloadMetaInfo_loop.simps) simp
    next
      case (Inl e')
      show ?thesis
      proof (cases "e' = metainfoclient_ErrNotFound")
        case True
        then have "e = storage_ErrNotFound" using \<open>i < ?K\<close> cd Inl "1.prems"
          by (subst (asm) downloadMetaInfo_loop.simps) simp
        moreover have "\<exists>n. metaInfoClient a n namespace name = Inl metainfoclient_ErrNotFound"
          using ans Inl True by blast
        ultimately show ?thesis by blast
      next
        case False
        have step: "downloadMetaInfo_loop a namespace name i err w =
            downloadMetaInfo_loop a namespace name (i + 1) (Some e') w'"
          using True cd Inl False by (subst downloadMetaInfo_loop.simps) simp
        note IH = "1.IH"[OF True cd[symmetric, unfolded Inl] refl False]
        have here: "metaInfoClient a (downloads ?wd) namespace name = Inl e'" using ans Inl by simp
        from IH "1.prems"[unfolded step]
        have "(e = storage_ErrNotFound \<and>
                (\<exists>n. metaInfoClient a n namespace name = Inl metainfoclient_ErrNotFound)) \<or>
              e = Errorf ''download metainfo'' (Some e') \<or>
              (\<exists>n e'. metaInfoClient a n namespace name = Inl e' \<and> e' \<noteq> metainfoclient_ErrNotFound \<and>
                 e = Errorf ''download metainfo'' (Some e'))" by blast
        then show ?thesis using here False by blast
      qed
    qed
  qed
qed

lemma downloadMetaInfo_error_cause:
  "fst (downloadMetaInfo a namespace name w) = Inl e \<Longrightarrow>
   (e = storage_ErrNotFound \<and>
      (\<exists>n. metaInfoClient a n namespace name = Inl metainfoclient_ErrNotFound)) \<or>
   e = Errorf ''download metainfo'' None \<or>
   (\<exists>n e'. metaInfoClient a n namespace name = Inl e' \<and> e' \<noteq> metainfoclient_ErrNotFound \<and>
       e = Errorf ''download metainfo'' (Some e'))"
  unfolding downloadMetaInfo_def by (rule downloadMetaInfo_loop_error_cause)

text \<open>
  The stages of \<open>CreateTorrent\<close>, one by one: the error returned when a stage fails,
  given that the stages before it succeeded.
\<close>

lemma CreateTorrent_read_error:
  "GetMetadata (fs a) (fsState w) name TorrentMeta = Inl e \<Longrightarrow> \<not> os_IsNotExist e \<Longrightarrow>
   fst (CreateTorrent a namespace name w) = Inl (Errorf ''get metainfo'' (Some e))"
  by (simp add: CreateTorrent_def call_GetMetadata_def)

lemma CreateTorrent_fetch_error:
  assumes "GetMetadata (fs a) (fsState w) name TorrentMeta = Inl e" "os_IsNotExist e"
    and "fst (downloadMetaInfo a namespace name
                (w\<lparr>trace := trace w @ [EvGetMetadata name TorrentMeta]\<rparr>)) = Inl err"
  shows "fst (CreateTorrent a namespace name w) = Inl err"
proof -
  obtain w1 where "downloadMetaInfo a namespace name
      (w\<lparr>trace := trace w @ [EvGetMetadata name TorrentMeta]\<rparr>) = (Inl err, w1)"
    using assms(3)
    by (cases "downloadMetaInfo a namespace name (w\<lparr>trace := trace w @ [EvGetMetadata name TorrentMeta]\<rparr>)") simp
  then show ?thesis using assms(1,2)
    by (simp add: CreateTorrent_def CreateTorrent_download_def call_GetMetadata_def)
qed

lemma CreateTorrent_ensure_error:
  assumes "GetMetadata (fs a) (fsState w) name TorrentMeta = Inl e" "os_IsNotExist e"
    and "downloadMetaInfo a namespace name
           (w\<lparr>trace := trace w @ [EvGetMetadata name TorrentMeta]\<rparr>) = (Inr mi, w1)"
    and "EnsureDownloadOrCacheFilePresent (fs a) (fsState w1) (Name mi) (Length mi) = (Some e1, s2)"
  shows "fst (CreateTorrent a namespace name w) =
           Inl (Errorf ''ensure download/cache file present'' (Some e1))"
  using assms
  by (simp add: CreateTorrent_def CreateTorrent_download_def call_GetMetadata_def
      call_EnsureDownloadOrCacheFilePresent_def)

lemma CreateTorrent_serialize_error:
  assumes "GetMetadata (fs a) (fsState w) name TorrentMeta = Inl e" "os_IsNotExist e"
    and "downloadMetaInfo a namespace name
           (w\<lparr>trace := trace w @ [EvGetMetadata name TorrentMeta]\<rparr>) = (Inr mi, w1)"
    and "EnsureDownloadOrCacheFilePresent (fs a) (fsState w1) (Name mi) (Length mi) = (None, s2)"
    and "Serialize a mi = Inl e1"
  shows "fst (CreateTorrent a namespace name w) =
           Inl (Errorf ''serialize downloaded metainfo'' (Some e1))"
  using assms
  by (simp add: CreateTorrent_def CreateTorrent_download_def call_GetMetadata_def
      call_EnsureDownloadOrCacheFilePresent_def)

lemma CreateTorrent_commit_error:
  assumes "GetMetadata (fs a) (fsState w) name TorrentMeta = Inl e" "os_IsNotExist e"
    and "downloadMetaInfo a namespace name
           (w\<lparr>trace := trace w @ [EvGetMetadata name TorrentMeta]\<rparr>) = (Inr mi, w1)"
    and "EnsureDownloadOrCacheFilePresent (fs a) (fsState w1) (Name mi) (Length mi) = (None, s2)"
    and "Serialize a mi = Inr attempted"
    and "GetOrSetMetadata (fs a) s2 name TorrentMeta attempted = (Inl e1, s3)"
  shows "fst (CreateTorrent a namespace name w) = Inl (Errorf ''get or set metainfo'' (Some e1))"
  using assms
  by (simp add: CreateTorrent_def CreateTorrent_download_def call_GetMetadata_def
      call_EnsureDownloadOrCacheFilePresent_def call_GetOrSetMetadata_def)

lemma CreateTorrent_hit_errors:
  assumes "GetMetadata (fs a) (fsState w) name TorrentMeta = Inr raw"
  shows "DeserializeMetaInfo a raw = Inl e1 \<Longrightarrow>
           fst (CreateTorrent a namespace name w) = Inl (Errorf ''parse metainfo'' (Some e1))"
    and "DeserializeMetaInfo a raw = Inr mi' \<Longrightarrow> NewTorrent a (fsState w) mi' = Inl e1 \<Longrightarrow>
           fst (CreateTorrent a namespace name w) = Inl (Errorf ''initialize torrent'' (Some e1))"
  using assms
  by (simp_all add: CreateTorrent_def call_GetMetadata_def call_NewTorrent_def)

lemma CreateTorrent_miss_errors:
  assumes "GetMetadata (fs a) (fsState w) name TorrentMeta = Inl e" "os_IsNotExist e"
    and "downloadMetaInfo a namespace name
           (w\<lparr>trace := trace w @ [EvGetMetadata name TorrentMeta]\<rparr>) = (Inr mi, w1)"
    and "EnsureDownloadOrCacheFilePresent (fs a) (fsState w1) (Name mi) (Length mi) = (None, s2)"
    and "Serialize a mi = Inr attempted"
    and "GetOrSetMetadata (fs a) s2 name TorrentMeta attempted = (Inr committed, s3)"
  shows "DeserializeMetaInfo a committed = Inl e1 \<Longrightarrow>
           fst (CreateTorrent a namespace name w) = Inl (Errorf ''parse metainfo'' (Some e1))"
    and "DeserializeMetaInfo a committed = Inr mi' \<Longrightarrow> NewTorrent a s3 mi' = Inl e1 \<Longrightarrow>
           fst (CreateTorrent a namespace name w) = Inl (Errorf ''initialize torrent'' (Some e1))"
  unfolding CreateTorrent_miss_unfold[OF assms] by simp_all

lemma world0_sel:
  "fsState (world0 s) = s" "downloads (world0 s) = 0" "trace (world0 s) = []"
  by (simp_all add: world0_def)

text \<open>
  Claim C5. When the read misses and the fetcher returns \<open>storage.ErrNotFound\<close>,
  \<open>CreateTorrent\<close> returns that very value, under no context, and it returns that value in
  no other case. Every other failure is returned under the context of the stage that
  failed, around the error that stage gave: \<open>get metainfo\<close> for a read error other than
  not-exist, \<open>download metainfo\<close> for the exhausted fetch (made by \<open>downloadMetaInfo\<close> and
  passed on as it is), \<open>ensure download/cache file present\<close> for the allocation,
  \<open>serialize downloaded metainfo\<close>, \<open>get or set metainfo\<close> for the commit,
  \<open>parse metainfo\<close> for the decoding and \<open>initialize torrent\<close> for \<open>NewTorrent\<close>, on the
  miss path and on the hit path alike.
\<close>

theorem CreateTorrent_error_identity:
  "((\<exists>e. GetMetadata (fs a) (fsState w) name TorrentMeta = Inl e \<and> os_IsNotExist e) \<and>
    fst (downloadMetaInfo a namespace name (w\<lparr>trace := trace w @ [EvGetMetadata name TorrentMeta]\<rparr>)) =
      Inl storage_ErrNotFound \<longrightarrow>
      fst (CreateTorrent a namespace name w) = Inl storage_ErrNotFound) \<and>
   (fst (CreateTorrent a namespace name w) = Inl storage_ErrNotFound \<longrightarrow>
      (\<exists>e. GetMetadata (fs a) (fsState w) name TorrentMeta = Inl e \<and> os_IsNotExist e) \<and>
      fst (downloadMetaInfo a namespace name (w\<lparr>trace := trace w @ [EvGetMetadata name TorrentMeta]\<rparr>)) =
        Inl storage_ErrNotFound) \<and>
   (\<forall>err. fst (CreateTorrent a namespace name w) = Inl err \<and> err \<noteq> storage_ErrNotFound \<longrightarrow>
      (\<exists>ctx u. err = Errorf ctx u \<and>
         ctx \<in> {''get metainfo'', ''download metainfo'', ''ensure download/cache file present'',
                  ''serialize downloaded metainfo'', ''get or set metainfo'', ''parse metainfo'',
                  ''initialize torrent''})) \<and>
   (GetMetadata (fs a) (fsState w) name TorrentMeta = Inl e \<and> \<not> os_IsNotExist e \<longrightarrow>
      fst (CreateTorrent a namespace name w) = Inl (Errorf ''get metainfo'' (Some e))) \<and>
   (GetMetadata (fs a) (fsState w) name TorrentMeta = Inl e \<and> os_IsNotExist e \<and>
    fst (downloadMetaInfo a namespace name (w\<lparr>trace := trace w @ [EvGetMetadata name TorrentMeta]\<rparr>)) =
      Inl err \<longrightarrow>
      fst (CreateTorrent a namespace name w) = Inl err \<and>
      ((err = storage_ErrNotFound \<and>
          (\<exists>n. metaInfoClient a n namespace name = Inl metainfoclient_ErrNotFound)) \<or>
       err = Errorf ''download metainfo'' None \<or>
       (\<exists>n e'. metaInfoClient a n namespace name = Inl e' \<and> e' \<noteq> metainfoclient_ErrNotFound \<and>
          err = Errorf ''download metainfo'' (Some e')))) \<and>
   (GetMetadata (fs a) (fsState w) name TorrentMeta = Inl e \<and> os_IsNotExist e \<and>
    downloadMetaInfo a namespace name (w\<lparr>trace := trace w @ [EvGetMetadata name TorrentMeta]\<rparr>) =
      (Inr mi, w1) \<and>
    EnsureDownloadOrCacheFilePresent (fs a) (fsState w1) (Name mi) (Length mi) = (Some e1, s2) \<longrightarrow>
      fst (CreateTorrent a namespace name w) =
        Inl (Errorf ''ensure download/cache file present'' (Some e1))) \<and>
   (GetMetadata (fs a) (fsState w) name TorrentMeta = Inl e \<and> os_IsNotExist e \<and>
    downloadMetaInfo a namespace name (w\<lparr>trace := trace w @ [EvGetMetadata name TorrentMeta]\<rparr>) =
      (Inr mi, w1) \<and>
    EnsureDownloadOrCacheFilePresent (fs a) (fsState w1) (Name mi) (Length mi) = (None, s2) \<and>
    Serialize a mi = Inl e1 \<longrightarrow>
      fst (CreateTorrent a namespace name w) =
        Inl (Errorf ''serialize downloaded metainfo'' (Some e1))) \<and>
   (GetMetadata (fs a) (fsState w) name TorrentMeta = Inl e \<and> os_IsNotExist e \<and>
    downloadMetaInfo a namespace name (w\<lparr>trace := trace w @ [EvGetMetadata name TorrentMeta]\<rparr>) =
      (Inr mi, w1) \<and>
    EnsureDownloadOrCacheFilePresent (fs a) (fsState w1) (Name mi) (Length mi) = (None, s2) \<and>
    Serialize a mi = Inr attempted \<and>
    GetOrSetMetadata (fs a) s2 name TorrentMeta attempted = (Inl e1, s3) \<longrightarrow>
      fst (CreateTorrent a namespace name w) = Inl (Errorf ''get or set metainfo'' (Some e1))) \<and>
   (GetMetadata (fs a) (fsState w) name TorrentMeta = Inl e \<and> os_IsNotExist e \<and>
    downloadMetaInfo a namespace name (w\<lparr>trace := trace w @ [EvGetMetadata name TorrentMeta]\<rparr>) =
      (Inr mi, w1) \<and>
    EnsureDownloadOrCacheFilePresent (fs a) (fsState w1) (Name mi) (Length mi) = (None, s2) \<and>
    Serialize a mi = Inr attempted \<and>
    GetOrSetMetadata (fs a) s2 name TorrentMeta attempted = (Inr committed, s3) \<and>
    DeserializeMetaInfo a committed = Inl e1 \<longrightarrow>
      fst (CreateTorrent a namespace name w) = Inl (Errorf ''parse metainfo'' (Some e1))) \<and>
   (GetMetadata (fs a) (fsState w) name TorrentMeta = Inl e \<and> os_IsNotExist e \<and>
    downloadMetaInfo a namespace name (w\<lparr>trace := trace w @ [EvGetMetadata name TorrentMeta]\<rparr>) =
      (Inr mi, w1) \<and>
    EnsureDownloadOrCacheFilePresent (fs a) (fsState w1) (Name mi) (Length mi) = (None, s2) \<and>
    Serialize a mi = Inr attempted \<and>
    GetOrSetMetadata (fs a) s2 name TorrentMeta attempted = (Inr committed, s3) \<and>
    DeserializeMetaInfo a committed = Inr mi' \<and> NewTorrent a s3 mi' = Inl e1 \<longrightarrow>
      fst (CreateTorrent a namespace name w) = Inl (Errorf ''initialize torrent'' (Some e1))) \<and>
   (GetMetadata (fs a) (fsState w) name TorrentMeta = Inr raw \<and>
    DeserializeMetaInfo a raw = Inl e1 \<longrightarrow>
      fst (CreateTorrent a namespace name w) = Inl (Errorf ''parse metainfo'' (Some e1))) \<and>
   (GetMetadata (fs a) (fsState w) name TorrentMeta = Inr raw \<and>
    DeserializeMetaInfo a raw = Inr mi' \<and> NewTorrent a (fsState w) mi' = Inl e1 \<longrightarrow>
      fst (CreateTorrent a namespace name w) = Inl (Errorf ''initialize torrent'' (Some e1)))"
proof (intro conjI)
  note cl = CreateTorrent_error_classes[of a w name namespace]
  show "(\<exists>e. GetMetadata (fs a) (fsState w) name TorrentMeta = Inl e \<and> os_IsNotExist e) \<and>
    fst (downloadMetaInfo a namespace name (w\<lparr>trace := trace w @ [EvGetMetadata name TorrentMeta]\<rparr>)) =
      Inl storage_ErrNotFound \<longrightarrow>
      fst (CreateTorrent a namespace name w) = Inl storage_ErrNotFound"
    by (rule cl[THEN conjunct1])
  show "fst (CreateTorrent a namespace name w) = Inl storage_ErrNotFound \<longrightarrow>
      (\<exists>e. GetMetadata (fs a) (fsState w) name TorrentMeta = Inl e \<and> os_IsNotExist e) \<and>
      fst (downloadMetaInfo a namespace name (w\<lparr>trace := trace w @ [EvGetMetadata name TorrentMeta]\<rparr>)) =
        Inl storage_ErrNotFound"
    by (rule cl[THEN conjunct2, THEN conjunct1])
  show "\<forall>err. fst (CreateTorrent a namespace name w) = Inl err \<and> err \<noteq> storage_ErrNotFound \<longrightarrow>
      (\<exists>ctx u. err = Errorf ctx u \<and>
         ctx \<in> {''get metainfo'', ''download metainfo'', ''ensure download/cache file present'',
                  ''serialize downloaded metainfo'', ''get or set metainfo'', ''parse metainfo'',
                  ''initialize torrent''})"
    by (rule cl[THEN conjunct2, THEN conjunct2])
next
  show "GetMetadata (fs a) (fsState w) name TorrentMeta = Inl e \<and> \<not> os_IsNotExist e \<longrightarrow>
      fst (CreateTorrent a namespace name w) = Inl (Errorf ''get metainfo'' (Some e))"
    using CreateTorrent_read_error[of a w name e namespace] by blast
next
  show "GetMetadata (fs a) (fsState w) name TorrentMeta = Inl e \<and> os_IsNotExist e \<and>
    fst (downloadMetaInfo a namespace name (w\<lparr>trace := trace w @ [EvGetMetadata name TorrentMeta]\<rparr>)) =
      Inl err \<longrightarrow>
      fst (CreateTorrent a namespace name w) = Inl err \<and>
      ((err = storage_ErrNotFound \<and>
          (\<exists>n. metaInfoClient a n namespace name = Inl metainfoclient_ErrNotFound)) \<or>
       err = Errorf ''download metainfo'' None \<or>
       (\<exists>n e'. metaInfoClient a n namespace name = Inl e' \<and> e' \<noteq> metainfoclient_ErrNotFound \<and>
          err = Errorf ''download metainfo'' (Some e')))"
  proof (intro impI, elim conjE, intro conjI)
    assume h: "GetMetadata (fs a) (fsState w) name TorrentMeta = Inl e" "os_IsNotExist e"
      "fst (downloadMetaInfo a namespace name (w\<lparr>trace := trace w @ [EvGetMetadata name TorrentMeta]\<rparr>)) = Inl err"
    show "fst (CreateTorrent a namespace name w) = Inl err"
      by (rule CreateTorrent_fetch_error[OF h])
    show "(err = storage_ErrNotFound \<and>
          (\<exists>n. metaInfoClient a n namespace name = Inl metainfoclient_ErrNotFound)) \<or>
       err = Errorf ''download metainfo'' None \<or>
       (\<exists>n e'. metaInfoClient a n namespace name = Inl e' \<and> e' \<noteq> metainfoclient_ErrNotFound \<and>
          err = Errorf ''download metainfo'' (Some e'))"
      by (rule downloadMetaInfo_error_cause[OF h(3)])
  qed
next
  show "GetMetadata (fs a) (fsState w) name TorrentMeta = Inl e \<and> os_IsNotExist e \<and>
    downloadMetaInfo a namespace name (w\<lparr>trace := trace w @ [EvGetMetadata name TorrentMeta]\<rparr>) =
      (Inr mi, w1) \<and>
    EnsureDownloadOrCacheFilePresent (fs a) (fsState w1) (Name mi) (Length mi) = (Some e1, s2) \<longrightarrow>
      fst (CreateTorrent a namespace name w) =
        Inl (Errorf ''ensure download/cache file present'' (Some e1))"
    by (intro impI, elim conjE) (rule CreateTorrent_ensure_error)
next
  show "GetMetadata (fs a) (fsState w) name TorrentMeta = Inl e \<and> os_IsNotExist e \<and>
    downloadMetaInfo a namespace name (w\<lparr>trace := trace w @ [EvGetMetadata name TorrentMeta]\<rparr>) =
      (Inr mi, w1) \<and>
    EnsureDownloadOrCacheFilePresent (fs a) (fsState w1) (Name mi) (Length mi) = (None, s2) \<and>
    Serialize a mi = Inl e1 \<longrightarrow>
      fst (CreateTorrent a namespace name w) =
        Inl (Errorf ''serialize downloaded metainfo'' (Some e1))"
    by (intro impI, elim conjE) (rule CreateTorrent_serialize_error)
next
  show "GetMetadata (fs a) (fsState w) name TorrentMeta = Inl e \<and> os_IsNotExist e \<and>
    downloadMetaInfo a namespace name (w\<lparr>trace := trace w @ [EvGetMetadata name TorrentMeta]\<rparr>) =
      (Inr mi, w1) \<and>
    EnsureDownloadOrCacheFilePresent (fs a) (fsState w1) (Name mi) (Length mi) = (None, s2) \<and>
    Serialize a mi = Inr attempted \<and>
    GetOrSetMetadata (fs a) s2 name TorrentMeta attempted = (Inl e1, s3) \<longrightarrow>
      fst (CreateTorrent a namespace name w) = Inl (Errorf ''get or set metainfo'' (Some e1))"
    by (intro impI, elim conjE) (rule CreateTorrent_commit_error)
next
  show "GetMetadata (fs a) (fsState w) name TorrentMeta = Inl e \<and> os_IsNotExist e \<and>
    downloadMetaInfo a namespace name (w\<lparr>trace := trace w @ [EvGetMetadata name TorrentMeta]\<rparr>) =
      (Inr mi, w1) \<and>
    EnsureDownloadOrCacheFilePresent (fs a) (fsState w1) (Name mi) (Length mi) = (None, s2) \<and>
    Serialize a mi = Inr attempted \<and>
    GetOrSetMetadata (fs a) s2 name TorrentMeta attempted = (Inr committed, s3) \<and>
    DeserializeMetaInfo a committed = Inl e1 \<longrightarrow>
      fst (CreateTorrent a namespace name w) = Inl (Errorf ''parse metainfo'' (Some e1))"
    by (intro impI, elim conjE) (rule CreateTorrent_miss_errors(1))
next
  show "GetMetadata (fs a) (fsState w) name TorrentMeta = Inl e \<and> os_IsNotExist e \<and>
    downloadMetaInfo a namespace name (w\<lparr>trace := trace w @ [EvGetMetadata name TorrentMeta]\<rparr>) =
      (Inr mi, w1) \<and>
    EnsureDownloadOrCacheFilePresent (fs a) (fsState w1) (Name mi) (Length mi) = (None, s2) \<and>
    Serialize a mi = Inr attempted \<and>
    GetOrSetMetadata (fs a) s2 name TorrentMeta attempted = (Inr committed, s3) \<and>
    DeserializeMetaInfo a committed = Inr mi' \<and> NewTorrent a s3 mi' = Inl e1 \<longrightarrow>
      fst (CreateTorrent a namespace name w) = Inl (Errorf ''initialize torrent'' (Some e1))"
    by (intro impI, elim conjE) (rule CreateTorrent_miss_errors(2))
next
  show "GetMetadata (fs a) (fsState w) name TorrentMeta = Inr raw \<and>
    DeserializeMetaInfo a raw = Inl e1 \<longrightarrow>
      fst (CreateTorrent a namespace name w) = Inl (Errorf ''parse metainfo'' (Some e1))"
    by (intro impI, elim conjE) (rule CreateTorrent_hit_errors(1))
next
  show "GetMetadata (fs a) (fsState w) name TorrentMeta = Inr raw \<and>
    DeserializeMetaInfo a raw = Inr mi' \<and> NewTorrent a (fsState w) mi' = Inl e1 \<longrightarrow>
      fst (CreateTorrent a namespace name w) = Inl (Errorf ''initialize torrent'' (Some e1))"
    by (intro impI, elim conjE) (rule CreateTorrent_hit_errors(2))
qed

theorem CreateTorrent_error_identity_witness:
  "fst (CreateTorrent (fake_archive spec_FileStore 3 client_absent) ''ns'' ''abc'' (world0 empty_store)) =
     Inl storage_ErrNotFound \<and>
   fst (CreateTorrent (fake_archive spec_FileStore 3 client_unavailable) ''ns'' ''abc'' (world0 empty_store)) =
     Inl (Errorf ''download metainfo'' (Some (Other ''timeout''))) \<and>
   fst (CreateTorrent (fake_archive (failing_FileStore (Other ''input/output error'')) 3 (client_serving mi_abc))
          ''ns'' ''abc'' (world0 ())) =
     Inl (Errorf ''get metainfo'' (Some (Other ''input/output error''))) \<and>
   fst (CreateTorrent (fake_archive (full_FileStore (Other ''no space left on device'')) 3 (client_serving mi_abc))
          ''ns'' ''abc'' (world0 empty_store)) =
     Inl (Errorf ''ensure download/cache file present'' (Some (Other ''no space left on device''))) \<and>
   fst (CreateTorrent (fake_archive spec_FileStore 3 (client_serving mi_xyz)) ''ns'' ''xyz'' (world0 empty_store)) =
     Inl (Errorf ''serialize downloaded metainfo'' (Some (Other ''cannot serialize''))) \<and>
   fst (CreateTorrent (fake_archive (readonly_FileStore (Other ''read-only file system'')) 3 (client_serving mi_abc))
          ''ns'' ''abc'' (world0 empty_store)) =
     Inl (Errorf ''get or set metainfo'' (Some (Other ''read-only file system''))) \<and>
   fst (CreateTorrent (fake_archive (racing_FileStore [9]) 3 (client_serving mi_abc))
          ''ns'' ''abc'' (world0 empty_store)) =
     Inl (Errorf ''parse metainfo'' (Some (Other ''bad metainfo''))) \<and>
   fst (CreateTorrent (fake_archive (racing_FileStore [3]) 3 (client_serving mi_abc))
          ''ns'' ''abc'' (world0 empty_store)) =
     Inl (Errorf ''initialize torrent'' (Some (Other ''negative length'')))"
proof -
  let ?wg = "(world0 empty_store)\<lparr>trace := trace (world0 empty_store) @ [EvGetMetadata ''abc'' TorrentMeta]\<rparr>"
  let ?wd = "?wg\<lparr>downloads := Suc (downloads ?wg), trace := trace ?wg @ [EvDownload ''ns'' ''abc'']\<rparr>"
  let ?wx = "(world0 empty_store)\<lparr>trace := trace (world0 empty_store) @ [EvGetMetadata ''xyz'' TorrentMeta]\<rparr>"
  let ?wy = "?wx\<lparr>downloads := Suc (downloads ?wx), trace := trace ?wx @ [EvDownload ''ns'' ''xyz'']\<rparr>"
  let ?sa = "empty_store\<lparr>files := (files empty_store)(''abc'' \<mapsto> 1024)\<rparr>"
  let ?sx = "empty_store\<lparr>files := (files empty_store)(''xyz'' \<mapsto> 7)\<rparr>"
  note sel = fake_archive_sel world0_sel spec_FileStore_def spec_GetMetadata_def
    spec_EnsureDownloadOrCacheFilePresent_def spec_GetOrSetMetadata_def empty_store_def
    failing_FileStore_def full_FileStore_def readonly_FileStore_def racing_FileStore_def
    fake_Serialize_def fake_DeserializeMetaInfo_def fake_NewTorrent_def
    mi_abc_def mi_abc'_def mi_xyz_def mi_negative_def
  have nf: "fst (CreateTorrent (fake_archive spec_FileStore 3 client_absent) ''ns'' ''abc'' (world0 empty_store)) =
     Inl storage_ErrNotFound"
    using CreateTorrent_error_identity[where a = "fake_archive spec_FileStore 3 client_absent"
        and w = "world0 empty_store" and name = "''abc''" and namespace = "''ns''"
        and e = os_ErrNotExist and err = storage_ErrNotFound]
    by (simp add: run_absent sel)
  obtain w' where un: "downloadMetaInfo (fake_archive spec_FileStore 3 client_unavailable) ''ns'' ''abc''
       ((world0 empty_store)\<lparr>trace := [EvGetMetadata ''abc'' TorrentMeta]\<rparr>) =
     (Inl (Errorf ''download metainfo'' (Some (Other ''timeout''))), w')"
    using run_unavailable_pair[where st = spec_FileStore and s = empty_store] by blast
  have ex: "fst (CreateTorrent (fake_archive spec_FileStore 3 client_unavailable) ''ns'' ''abc'' (world0 empty_store)) =
     Inl (Errorf ''download metainfo'' (Some (Other ''timeout'')))"
    using CreateTorrent_error_identity[where a = "fake_archive spec_FileStore 3 client_unavailable"
        and w = "world0 empty_store" and name = "''abc''" and namespace = "''ns''"
        and e = os_ErrNotExist and err = "Errorf ''download metainfo'' (Some (Other ''timeout''))"]
      un
    by (simp add: sel)
  have rd: "fst (CreateTorrent (fake_archive (failing_FileStore (Other ''input/output error'')) 3 (client_serving mi_abc))
          ''ns'' ''abc'' (world0 ())) =
     Inl (Errorf ''get metainfo'' (Some (Other ''input/output error'')))"
    using CreateTorrent_error_identity[where a = "fake_archive (failing_FileStore (Other ''input/output error'')) 3 (client_serving mi_abc)"
        and w = "world0 ()" and name = "''abc''" and namespace = "''ns''"
        and e = "Other ''input/output error''"]
    by (simp add: sel)
  have en: "fst (CreateTorrent (fake_archive (full_FileStore (Other ''no space left on device'')) 3 (client_serving mi_abc))
          ''ns'' ''abc'' (world0 empty_store)) =
     Inl (Errorf ''ensure download/cache file present'' (Some (Other ''no space left on device'')))"
    using CreateTorrent_error_identity[where a = "fake_archive (full_FileStore (Other ''no space left on device'')) 3 (client_serving mi_abc)"
        and w = "world0 empty_store" and name = "''abc''" and namespace = "''ns''"
        and e = os_ErrNotExist and mi = mi_abc and ?w1.0 = ?wd
        and ?e1.0 = "Other ''no space left on device''" and ?s2.0 = empty_store]
    by (simp add: run_serving sel)
  have se: "fst (CreateTorrent (fake_archive spec_FileStore 3 (client_serving mi_xyz)) ''ns'' ''xyz'' (world0 empty_store)) =
     Inl (Errorf ''serialize downloaded metainfo'' (Some (Other ''cannot serialize'')))"
    using CreateTorrent_error_identity[where a = "fake_archive spec_FileStore 3 (client_serving mi_xyz)"
        and w = "world0 empty_store" and name = "''xyz''" and namespace = "''ns''"
        and e = os_ErrNotExist and mi = mi_xyz and ?w1.0 = ?wy
        and ?e1.0 = "Other ''cannot serialize''" and ?s2.0 = ?sx]
    by (simp add: run_serving sel)
  have co: "fst (CreateTorrent (fake_archive (readonly_FileStore (Other ''read-only file system'')) 3 (client_serving mi_abc))
          ''ns'' ''abc'' (world0 empty_store)) =
     Inl (Errorf ''get or set metainfo'' (Some (Other ''read-only file system'')))"
    using CreateTorrent_error_identity[where a = "fake_archive (readonly_FileStore (Other ''read-only file system'')) 3 (client_serving mi_abc)"
        and w = "world0 empty_store" and name = "''abc''" and namespace = "''ns''"
        and e = os_ErrNotExist and mi = mi_abc and ?w1.0 = ?wd
        and ?e1.0 = "Other ''read-only file system''" and ?s2.0 = ?sa and attempted = "[1]" and ?s3.0 = ?sa]
    by (simp add: run_serving sel)
  have pa: "fst (CreateTorrent (fake_archive (racing_FileStore [9]) 3 (client_serving mi_abc))
          ''ns'' ''abc'' (world0 empty_store)) =
     Inl (Errorf ''parse metainfo'' (Some (Other ''bad metainfo'')))"
    using CreateTorrent_error_identity[where a = "fake_archive (racing_FileStore [9]) 3 (client_serving mi_abc)"
        and w = "world0 empty_store" and name = "''abc''" and namespace = "''ns''"
        and e = os_ErrNotExist and mi = mi_abc and ?w1.0 = ?wd
        and ?e1.0 = "Other ''bad metainfo''" and ?s2.0 = ?sa and attempted = "[1]" and committed = "[9]"
        and ?s3.0 = "?sa\<lparr>metadata := (metadata ?sa)((''abc'', TorrentMeta) \<mapsto> [9])\<rparr>"]
    by (simp add: run_serving sel)
  have ini: "fst (CreateTorrent (fake_archive (racing_FileStore [3]) 3 (client_serving mi_abc))
          ''ns'' ''abc'' (world0 empty_store)) =
     Inl (Errorf ''initialize torrent'' (Some (Other ''negative length'')))"
    using CreateTorrent_error_identity[where a = "fake_archive (racing_FileStore [3]) 3 (client_serving mi_abc)"
        and w = "world0 empty_store" and name = "''abc''" and namespace = "''ns''"
        and e = os_ErrNotExist and mi = mi_abc and ?w1.0 = ?wd
        and ?e1.0 = "Other ''negative length''" and ?s2.0 = ?sa and attempted = "[1]" and committed = "[3]"
        and ?s3.0 = "?sa\<lparr>metadata := (metadata ?sa)((''abc'', TorrentMeta) \<mapsto> [3])\<rparr>"
        and mi' = mi_negative]
    by (simp add: run_serving sel)
  show ?thesis using nf ex rd en se co pa ini by (intro conjI)
qed

section \<open>The miss path of \<open>CreateTorrent\<close>\<close>

text \<open>
  On the store of the specification, callers that commit one after the other all get the
  same bytes back: those already in the slot, or else those of the first caller.
\<close>

lemma commits_present:
  "metadata s (name, TorrentMeta) = Some c \<Longrightarrow>
   commits s name raws = replicate (length raws) (Inr c)"
  by (induction raws) (simp_all add: spec_GetOrSetMetadata_def)

lemma commits_first_wins:
  "commits s name (raw # raws) =
     replicate (Suc (length raws))
       (Inr (case metadata s (name, TorrentMeta) of None \<Rightarrow> raw | Some c \<Rightarrow> c))"
proof (cases "metadata s (name, TorrentMeta)")
  case None
  have "metadata (s\<lparr>metadata := (metadata s)((name, TorrentMeta) \<mapsto> raw)\<rparr>) (name, TorrentMeta) = Some raw"
    by simp
  from commits_present[OF this, of raws] None show ?thesis
    by (simp add: spec_GetOrSetMetadata_def)
next
  case (Some c)
  from commits_present[OF Some, of "raw # raws"] Some show ?thesis by simp
qed

text \<open>
  Claim C1. When the read misses and the fetch, the allocation, the serialization and
  the commit succeed, the result of \<open>CreateTorrent\<close> is built from the bytes that
  \<open>GetOrSetMetadata\<close> returned: they are what is decoded, and the decoded value is what
  \<open>NewTorrent\<close> is called with; the bytes the caller serialized only go into the commit
  call. On the store of the specification every caller of the commit for a name gets
  the same bytes back.
\<close>

theorem CreateTorrent_builds_from_committed:
  fixes a :: "('s, 't) TorrentArchive"
  assumes miss: "GetMetadata (fs a) (fsState w) name TorrentMeta = Inl e" "os_IsNotExist e"
    and fetch: "downloadMetaInfo a namespace name
                  (w\<lparr>trace := trace w @ [EvGetMetadata name TorrentMeta]\<rparr>) = (Inr mi, w1)"
    and ensure: "EnsureDownloadOrCacheFilePresent (fs a) (fsState w1) (Name mi) (Length mi) = (None, s2)"
    and ser: "Serialize a mi = Inr attempted"
    and commit: "GetOrSetMetadata (fs a) s2 name TorrentMeta attempted = (Inr committed, s3)"
  shows
  "fst (CreateTorrent a namespace name w) =
     (case DeserializeMetaInfo a committed of
        Inl err \<Rightarrow> Inl (Errorf ''parse metainfo'' (Some err))
      | Inr mi' \<Rightarrow>
          (case NewTorrent a s3 mi' of
             Inl err \<Rightarrow> Inl (Errorf ''initialize torrent'' (Some err))
           | Inr t \<Rightarrow> Inr t)) \<and>
   (\<forall>mi'. DeserializeMetaInfo a committed = Inr mi' \<longrightarrow>
      trace (snd (CreateTorrent a namespace name w)) =
        trace w1 @ [EvEnsureDownloadOrCacheFilePresent (Name mi) (Length mi),
                    EvGetOrSetMetadata name TorrentMeta attempted, EvNewTorrent mi']) \<and>
   commits s name (raw # raws) =
     replicate (Suc (length raws))
       (Inr (case metadata s (name, TorrentMeta) of None \<Rightarrow> raw | Some c \<Rightarrow> c))"
proof -
  note ct = CreateTorrent_miss_unfold[OF miss fetch ensure ser commit]
  have r: "fst (CreateTorrent a namespace name w) =
     (case DeserializeMetaInfo a committed of
        Inl err \<Rightarrow> Inl (Errorf ''parse metainfo'' (Some err))
      | Inr mi' \<Rightarrow>
          (case NewTorrent a s3 mi' of
             Inl err \<Rightarrow> Inl (Errorf ''initialize torrent'' (Some err))
           | Inr t \<Rightarrow> Inr t))"
    unfolding ct by (simp split: sum.splits)
  have t: "\<forall>mi'. DeserializeMetaInfo a committed = Inr mi' \<longrightarrow>
      trace (snd (CreateTorrent a namespace name w)) =
        trace w1 @ [EvEnsureDownloadOrCacheFilePresent (Name mi) (Length mi),
                    EvGetOrSetMetadata name TorrentMeta attempted, EvNewTorrent mi']"
    unfolding ct by simp
  show ?thesis using r t commits_first_wins[of s name raw raws] by blast
qed

theorem CreateTorrent_builds_from_committed_witness:
  "fake_Serialize mi_abc = Inr [1] \<and>
   fst (CreateTorrent (fake_archive (racing_FileStore [2]) 3 (client_serving mi_abc)) ''ns'' ''abc''
          (world0 empty_store)) = Inr mi_abc' \<and>
   fake_DeserializeMetaInfo [2] = Inr mi_abc' \<and>
   commits empty_store ''abc'' [[2], [1]] = [Inr [2], Inr [2]]"
proof -
  let ?a = "fake_archive (racing_FileStore [2]) 3 (client_serving mi_abc)"
  let ?w = "world0 empty_store"
  let ?w1 = "?w\<lparr>trace := trace ?w @ [EvGetMetadata ''abc'' TorrentMeta]\<rparr>
              \<lparr>downloads := Suc (downloads (?w\<lparr>trace := trace ?w @ [EvGetMetadata ''abc'' TorrentMeta]\<rparr>)),
               trace := trace (?w\<lparr>trace := trace ?w @ [EvGetMetadata ''abc'' TorrentMeta]\<rparr>) @ [EvDownload ''ns'' ''abc'']\<rparr>"
  let ?s2 = "empty_store\<lparr>files := (files empty_store)(''abc'' \<mapsto> 1024)\<rparr>"
  let ?s3 = "?s2\<lparr>metadata := (metadata ?s2)((''abc'', TorrentMeta) \<mapsto> [2])\<rparr>"
  have h1: "GetMetadata (fs ?a) (fsState ?w) ''abc'' TorrentMeta = Inl os_ErrNotExist"
    by (simp add: fake_archive_sel racing_FileStore_def spec_FileStore_def spec_GetMetadata_def
        world0_def empty_store_def)
  have h2: "os_IsNotExist os_ErrNotExist" by simp
  have h3: "downloadMetaInfo ?a ''ns'' ''abc'' (?w\<lparr>trace := trace ?w @ [EvGetMetadata ''abc'' TorrentMeta]\<rparr>)
      = (Inr mi_abc, ?w1)"
    by (rule run_serving)
  have h4: "EnsureDownloadOrCacheFilePresent (fs ?a) (fsState ?w1) (Name mi_abc) (Length mi_abc) = (None, ?s2)"
    by (simp add: fake_archive_sel racing_FileStore_def spec_FileStore_def
        spec_EnsureDownloadOrCacheFilePresent_def world0_def empty_store_def mi_abc_def)
  have h5: "Serialize ?a mi_abc = Inr [1]"
    by (simp add: fake_archive_sel fake_Serialize_def)
  have h6: "GetOrSetMetadata (fs ?a) ?s2 ''abc'' TorrentMeta [1] = (Inr [2], ?s3)"
    by (simp add: fake_archive_sel racing_FileStore_def spec_FileStore_def
        spec_GetOrSetMetadata_def empty_store_def)
  have d: "fake_DeserializeMetaInfo [2] = Inr mi_abc'"
    by (simp add: fake_DeserializeMetaInfo_def)
  from CreateTorrent_builds_from_committed[OF h1 h2 h3 h4 h5 h6, where s = empty_store and raw = "[2]" and raws = "[[1]]"] d h5
  show ?thesis
    by (simp add: fake_archive_sel fake_NewTorrent_def mi_abc'_def empty_store_def)
qed

text \<open>
  \<open>downloadMetaInfo\<close> leaves the store as it is.
\<close>

lemma downloadMetaInfo_fsState:
  "fsState (snd (downloadMetaInfo a namespace name w)) = fsState w"
  unfolding downloadMetaInfo_def using downloadMetaInfo_loop_grows[of w a namespace name 0 None] by simp

text \<open>
  On the store of the specification a commit leaves the files alone, and ensure-present
  leaves a file of the given length under the name when any file already there has that
  length.
\<close>

lemma spec_GetOrSetMetadata_files:
  "files (snd (spec_GetOrSetMetadata s n k r)) = files s"
  by (simp add: spec_GetOrSetMetadata_def split: option.splits)

lemma spec_Ensure_files:
  "\<forall>l. files s n = Some l \<longrightarrow> l = len \<Longrightarrow>
   files (snd (spec_EnsureDownloadOrCacheFilePresent s n len)) n = Some len"
  by (simp add: spec_EnsureDownloadOrCacheFilePresent_def split: option.splits)

text \<open>
  Claim C9. In the miss path, with a successful fetch of \<open>mi\<close>, \<open>CreateTorrent\<close> calls
  ensure-present with \<open>mi\<close>'s name and exactly its declared length, and only then the
  commit. The length of a file follows from its name: a file already there under the
  name has the declared length (another caller has allocated it), and the metainfo that
  ends up committed, the caller's own or that of a caller that won the race, declares the
  same length. Then, once the creation has completed, the file under the name has the
  declared length of the committed metainfo. Ensure-present is that of the
  specification; of the commit only that it leaves the files alone is used.
\<close>

theorem CreateTorrent_file_length:
  fixes a :: "(LocalStore, 't) TorrentArchive"
  assumes ens: "EnsureDownloadOrCacheFilePresent (fs a) = spec_EnsureDownloadOrCacheFilePresent"
    and keeps: "\<forall>s n k r. files (snd (GetOrSetMetadata (fs a) s n k r)) = files s"
    and miss: "GetMetadata (fs a) (fsState w) name TorrentMeta = Inl e" "os_IsNotExist e"
    and fetch: "downloadMetaInfo a namespace name
                  (w\<lparr>trace := trace w @ [EvGetMetadata name TorrentMeta]\<rparr>) = (Inr mi, w1)"
    and prior: "\<forall>l. files (fsState w) (Name mi) = Some l \<longrightarrow> l = Length mi"
    and ser: "Serialize a mi = Inr attempted"
    and commit: "fst (GetOrSetMetadata (fs a)
                       (snd (spec_EnsureDownloadOrCacheFilePresent (fsState w) (Name mi) (Length mi)))
                       name TorrentMeta attempted) = Inr committed"
    and dec: "DeserializeMetaInfo a committed = Inr mi'"
    and same: "Length mi' = Length mi"
  shows
  "trace (snd (CreateTorrent a namespace name w)) =
     trace w1 @ [EvEnsureDownloadOrCacheFilePresent (Name mi) (Length mi),
                 EvGetOrSetMetadata name TorrentMeta attempted, EvNewTorrent mi'] \<and>
   files (fsState (snd (CreateTorrent a namespace name w))) (Name mi) = Some (Length mi')"
proof -
  let ?wg = "w\<lparr>trace := trace w @ [EvGetMetadata name TorrentMeta]\<rparr>"
  define sa where "sa = snd (spec_EnsureDownloadOrCacheFilePresent (fsState w) (Name mi) (Length mi))"
  define sb where "sb = snd (GetOrSetMetadata (fs a) sa name TorrentMeta attempted)"
  have s1: "fsState w1 = fsState w"
    using downloadMetaInfo_fsState[of a namespace name ?wg] fetch by simp
  have h4: "EnsureDownloadOrCacheFilePresent (fs a) (fsState w1) (Name mi) (Length mi) = (None, sa)"
    unfolding ens s1 sa_def
    by (simp add: spec_EnsureDownloadOrCacheFilePresent_def split: option.splits)
  have h6: "GetOrSetMetadata (fs a) sa name TorrentMeta attempted = (Inr committed, sb)"
    using commit unfolding sa_def[symmetric] sb_def
    by (cases "GetOrSetMetadata (fs a) sa name TorrentMeta attempted") simp
  note ct = CreateTorrent_miss_unfold[OF miss fetch h4 ser h6]
  have fa: "files sa (Name mi) = Some (Length mi)"
    unfolding sa_def by (rule spec_Ensure_files[OF prior])
  have fb: "files sb = files sa"
    unfolding sb_def using keeps by blast
  have t: "trace (snd (CreateTorrent a namespace name w)) =
     trace w1 @ [EvEnsureDownloadOrCacheFilePresent (Name mi) (Length mi),
                 EvGetOrSetMetadata name TorrentMeta attempted, EvNewTorrent mi']"
    unfolding ct using dec by simp
  have f: "files (fsState (snd (CreateTorrent a namespace name w))) (Name mi) = Some (Length mi')"
    unfolding ct using dec fa fb same by simp
  show ?thesis using t f by (rule conjI)
qed

theorem CreateTorrent_file_length_witness:
  "files (fsState (world0 empty_store)) ''abc'' = None \<and>
   trace (snd (CreateTorrent (fake_archive spec_FileStore 3 (client_serving mi_abc)) ''ns'' ''abc''
          (world0 empty_store))) =
     [EvGetMetadata ''abc'' TorrentMeta, EvDownload ''ns'' ''abc'',
      EvEnsureDownloadOrCacheFilePresent ''abc'' 1024,
      EvGetOrSetMetadata ''abc'' TorrentMeta [1], EvNewTorrent mi_abc] \<and>
   files (fsState (snd (CreateTorrent (fake_archive spec_FileStore 3 (client_serving mi_abc))
      ''ns'' ''abc'' (world0 empty_store)))) ''abc'' = Some 1024 \<and>
   files (fsState (world0 store_allocated)) ''abc'' = Some 1024 \<and>
   files (fsState (snd (CreateTorrent (fake_archive spec_FileStore 3 (client_serving mi_abc))
      ''ns'' ''abc'' (world0 store_allocated)))) ''abc'' = Some 1024 \<and>
   trace (snd (CreateTorrent (fake_archive (racing_FileStore [2]) 3 (client_serving mi_abc)) ''ns'' ''abc''
          (world0 empty_store))) =
     [EvGetMetadata ''abc'' TorrentMeta, EvDownload ''ns'' ''abc'',
      EvEnsureDownloadOrCacheFilePresent ''abc'' 1024,
      EvGetOrSetMetadata ''abc'' TorrentMeta [1], EvNewTorrent mi_abc'] \<and>
   files (fsState (snd (CreateTorrent (fake_archive (racing_FileStore [2]) 3 (client_serving mi_abc))
      ''ns'' ''abc'' (world0 empty_store)))) ''abc'' = Some 1024"
proof -
  let ?a = "fake_archive spec_FileStore 3 (client_serving mi_abc)"
  let ?b = "fake_archive (racing_FileStore [2]) 3 (client_serving mi_abc)"
  let ?w = "world0 empty_store"
  let ?wg = "?w\<lparr>trace := trace ?w @ [EvGetMetadata ''abc'' TorrentMeta]\<rparr>"
  let ?wd = "?wg\<lparr>downloads := Suc (downloads ?wg), trace := trace ?wg @ [EvDownload ''ns'' ''abc'']\<rparr>"
  note sel = fake_archive_sel world0_sel spec_FileStore_def spec_GetMetadata_def
    spec_EnsureDownloadOrCacheFilePresent_def spec_GetOrSetMetadata_def empty_store_def
    racing_FileStore_def fake_Serialize_def fake_DeserializeMetaInfo_def
    mi_abc_def mi_abc'_def store_allocated_def
  have a1: "EnsureDownloadOrCacheFilePresent (fs ?a) = spec_EnsureDownloadOrCacheFilePresent"
    and b1: "EnsureDownloadOrCacheFilePresent (fs ?b) = spec_EnsureDownloadOrCacheFilePresent"
    by (simp_all add: fake_archive_sel spec_FileStore_def racing_FileStore_def)
  have a2: "\<forall>s n k r. files (snd (GetOrSetMetadata (fs ?a) s n k r)) = files s"
    by (simp add: fake_archive_sel spec_FileStore_def spec_GetOrSetMetadata_files)
  have b2: "\<forall>s n k r. files (snd (GetOrSetMetadata (fs ?b) s n k r)) = files s"
    by (simp add: fake_archive_sel spec_FileStore_def racing_FileStore_def spec_GetOrSetMetadata_files)
  have a3: "GetMetadata (fs ?a) (fsState ?w) ''abc'' TorrentMeta = Inl os_ErrNotExist"
    and b3: "GetMetadata (fs ?b) (fsState ?w) ''abc'' TorrentMeta = Inl os_ErrNotExist"
    by (simp_all add: sel)
  let ?v = "world0 store_allocated"
  let ?vg = "?v\<lparr>trace := trace ?v @ [EvGetMetadata ''abc'' TorrentMeta]\<rparr>"
  let ?vd = "?vg\<lparr>downloads := Suc (downloads ?vg), trace := trace ?vg @ [EvDownload ''ns'' ''abc'']\<rparr>"
  have c3: "GetMetadata (fs ?a) (fsState ?v) ''abc'' TorrentMeta = Inl os_ErrNotExist"
    by (simp add: sel)
  have c4: "downloadMetaInfo ?a ''ns'' ''abc'' ?vg = (Inr mi_abc, ?vd)"
    by (rule run_serving)
  have cpr: "\<forall>l. files (fsState ?v) (Name mi_abc) = Some l \<longrightarrow> l = Length mi_abc"
    by (simp add: sel)
  have c6: "fst (GetOrSetMetadata (fs ?a)
                   (snd (spec_EnsureDownloadOrCacheFilePresent (fsState ?v) (Name mi_abc) (Length mi_abc)))
                   ''abc'' TorrentMeta [1]) = Inr [1]"
    by (simp add: sel)
  have ne: "os_IsNotExist os_ErrNotExist" by simp
  have a4: "downloadMetaInfo ?a ''ns'' ''abc'' ?wg = (Inr mi_abc, ?wd)"
    and b4: "downloadMetaInfo ?b ''ns'' ''abc'' ?wg = (Inr mi_abc, ?wd)"
    by (rule run_serving)+
  have pr: "\<forall>l. files (fsState ?w) (Name mi_abc) = Some l \<longrightarrow> l = Length mi_abc"
    by (simp add: sel)
  have a5: "Serialize ?a mi_abc = Inr [1]" and b5: "Serialize ?b mi_abc = Inr [1]"
    by (simp_all add: sel)
  have a6: "fst (GetOrSetMetadata (fs ?a)
                   (snd (spec_EnsureDownloadOrCacheFilePresent (fsState ?w) (Name mi_abc) (Length mi_abc)))
                   ''abc'' TorrentMeta [1]) = Inr [1]"
    by (simp add: sel)
  have b6: "fst (GetOrSetMetadata (fs ?b)
                   (snd (spec_EnsureDownloadOrCacheFilePresent (fsState ?w) (Name mi_abc) (Length mi_abc)))
                   ''abc'' TorrentMeta [1]) = Inr [2]"
    by (simp add: sel)
  have a7: "DeserializeMetaInfo ?a [1] = Inr mi_abc" and b7: "DeserializeMetaInfo ?b [2] = Inr mi_abc'"
    by (simp_all add: sel)
  have a8: "Length mi_abc = Length mi_abc" and b8: "Length mi_abc' = Length mi_abc"
    by (simp_all add: sel)
  from CreateTorrent_file_length[OF a1 a2 a3 ne a4 pr a5 a6 a7 a8]
       CreateTorrent_file_length[OF b1 b2 b3 ne b4 pr b5 b6 b7 b8]
       CreateTorrent_file_length[OF a1 a2 c3 ne c4 cpr a5 c6 a7 a8]
  show ?thesis
    by (simp add: world0_sel empty_store_def store_allocated_def mi_abc_def mi_abc'_def)
qed

end
